theory Spec2Isabelle
  imports Main
begin

section \<open>Values: JSON, Python exceptions, text and numbers\<close>

text \<open>
  The program is a Flask application (\<^verbatim>\<open>src/main.py\<close>) over two MySQL tables
  (the source calls \<^verbatim>\<open>last_insert_id()\<close>). An attribute value of a request body is what
  \<^verbatim>\<open>request.get_json()\<close> gives for a JSON scalar: null, a boolean, an integer, a number
  read as a float, or a string. A number read as a float is taken at its decimal value:
  \<open>JDec m e\<close> is the number \<open>m / 10 ^ e\<close>, so \<open>JDec 64 1\<close> is 6.4; the binary rounding
  of floats is not modelled. Arrays and nested objects as attribute values are outside
  this development. A request body is a JSON object: a Python \<^verbatim>\<open>dict\<close>, here an
  association list read with \<open>map_of\<close>.
\<close>

datatype jval = JNull | JBool bool | JInt int | JDec int nat | JStr string

type_synonym dict = "(string \<times> jval) list"

text \<open>Response bodies: a dict of attributes, a list, or a dict holding a list.\<close>

datatype json = JVal jval | JList "json list" | JObj "(string \<times> json) list"

definition obj :: "dict \<Rightarrow> json" where
  "obj d = JObj (map (\<lambda>(k, v). (k, JVal v)) d)"

text \<open>A response is a body and a status code; a handler that does not catch an
  exception lets it escape (\<open>Inl\<close>).\<close>

datatype exn = KeyError string | ValueError | TypeError | DBError | MultipleResultsFound

type_synonym response = "json \<times> nat"

type_synonym result = "exn + response"

text \<open>\<^verbatim>\<open>k in d\<close>, \<^verbatim>\<open>d[k]\<close>, \<^verbatim>\<open>d.get(k, default)\<close> and \<^verbatim>\<open>d[k] = v\<close> on a dict.\<close>

definition has_key :: "dict \<Rightarrow> string \<Rightarrow> bool" where
  "has_key d k = (map_of d k \<noteq> None)"

definition getitem :: "dict \<Rightarrow> string \<Rightarrow> exn + jval" where
  "getitem d k = (case map_of d k of None \<Rightarrow> Inl (KeyError k) | Some v \<Rightarrow> Inr v)"

definition dict_get :: "dict \<Rightarrow> string \<Rightarrow> jval \<Rightarrow> jval" where
  "dict_get d k dflt = (case map_of d k of None \<Rightarrow> dflt | Some v \<Rightarrow> v)"

fun setitem :: "dict \<Rightarrow> string \<Rightarrow> jval \<Rightarrow> dict" where
  "setitem [] k v = [(k, v)]"
| "setitem ((k', v') # d) k v = (if k' = k then (k, v) # d else (k', v') # setitem d k v)"

subsection \<open>Python's \<^verbatim>\<open>str\<close> and \<^verbatim>\<open>int\<close> between integers and text\<close>

definition digit_char :: "nat \<Rightarrow> char" where
  "digit_char d = ''0123456789'' ! d"

fun nat_digits :: "nat \<Rightarrow> string" where
  "nat_digits n = (if n < 10 then [digit_char n] else nat_digits (n div 10) @ [digit_char (n mod 10)])"

declare nat_digits.simps [simp del]

text \<open>\<^verbatim>\<open>str(i)\<close>, which is also what an f-string writes for an integer.\<close>

definition str_int :: "int \<Rightarrow> string" where
  "str_int i = (if i < 0 then CHR ''-'' # nat_digits (nat (- i)) else nat_digits (nat i))"

subsection \<open>Decimal numbers\<close>

text \<open>The number \<open>m / 10 ^ e\<close> rounded to the nearest integer, a half away from zero;
  cut towards zero, as \<^verbatim>\<open>int()\<close> does to a float; and compared with an integer.\<close>

definition dec_round :: "int \<Rightarrow> nat \<Rightarrow> int" where
  "dec_round m e =
     (let q = \<bar>m\<bar> div 10 ^ e;
          r = \<bar>m\<bar> mod 10 ^ e;
          n = (if 10 ^ e \<le> 2 * r then q + 1 else q)
      in if m < 0 then - n else n)"

definition dec_trunc :: "int \<Rightarrow> nat \<Rightarrow> int" where
  "dec_trunc m e = (if m < 0 then - (\<bar>m\<bar> div 10 ^ e) else \<bar>m\<bar> div 10 ^ e)"

definition dec_eq_int :: "int \<Rightarrow> int \<Rightarrow> nat \<Rightarrow> bool" where
  "dec_eq_int c m e = (m = c * 10 ^ e)"

text \<open>A decimal written out: trailing zeros of the fraction dropped, the fraction padded
  with zeros on the left. (The exponent notation that very large and very small floats are
  written in is not modelled.)\<close>

fun strip_zeros :: "int \<Rightarrow> nat \<Rightarrow> int \<times> nat" where
  "strip_zeros m 0 = (m, 0)"
| "strip_zeros m (Suc e) = (if m mod 10 = 0 then strip_zeros (m div 10) e else (m, Suc e))"

definition dec_plain :: "int \<Rightarrow> nat \<Rightarrow> string" where
  "dec_plain m e =
     (let ds = nat_digits (nat (\<bar>m\<bar> mod 10 ^ e))
      in (if m < 0 then ''-'' else '''') @ nat_digits (nat (\<bar>m\<bar> div 10 ^ e)) @ ''.''
           @ replicate (e - length ds) CHR ''0'' @ ds)"

text \<open>\<^verbatim>\<open>str(x)\<close> of a float: a whole number keeps \<^verbatim>\<open>.0\<close>.\<close>

definition str_float :: "int \<Rightarrow> nat \<Rightarrow> string" where
  "str_float m e = (case strip_zeros m e of
       (m', 0) \<Rightarrow> str_int m' @ ''.0''
     | (m', Suc e') \<Rightarrow> dec_plain m' (Suc e'))"

text \<open>What an f-string writes for an attribute value.\<close>

fun py_str :: "jval \<Rightarrow> string" where
  "py_str JNull = ''None''"
| "py_str (JBool b) = (if b then ''True'' else ''False'')"
| "py_str (JInt i) = str_int i"
| "py_str (JDec m e) = str_float m e"
| "py_str (JStr s) = s"

definition is_digit :: "char \<Rightarrow> bool" where
  "is_digit c = (48 \<le> (of_char c :: nat) \<and> (of_char c :: nat) \<le> 57)"

text \<open>The characters \<^verbatim>\<open>int()\<close> strips: those Python counts as white space, among the
  code points below 256.\<close>

definition is_space :: "char \<Rightarrow> bool" where
  "is_space c = ((of_char c :: nat) \<in> {9, 10, 11, 12, 13, 28, 29, 30, 31, 32, 133, 160})"

definition strip :: "string \<Rightarrow> string" where
  "strip s = rev (dropWhile is_space (rev (dropWhile is_space s)))"

fun digits_val :: "nat \<Rightarrow> string \<Rightarrow> nat" where
  "digits_val acc [] = acc"
| "digits_val acc (c # cs) = digits_val (10 * acc + ((of_char c :: nat) - 48)) cs"

text \<open>The digit part of a Python integer literal: digits, with single underscores
  allowed between two digits.\<close>

fun digit_part :: "string \<Rightarrow> bool" where
  "digit_part [] = False"
| "digit_part [c] = is_digit c"
| "digit_part (c # d # cs) =
     (is_digit c \<and> (if d = CHR ''_'' then digit_part cs else digit_part (d # cs)))"

definition split_sign :: "string \<Rightarrow> bool \<times> string" where
  "split_sign s = (case s of
       [] \<Rightarrow> (False, [])
     | c # r \<Rightarrow> if c = CHR ''-'' then (True, r) else if c = CHR ''+'' then (False, r) else (False, s))"

text \<open>\<^verbatim>\<open>int(s)\<close> on text, base ten; \<open>None\<close> is \<^verbatim>\<open>ValueError\<close>. (The interpreter's cap on
  the number of digits is not modelled.)\<close>

definition py_int :: "string \<Rightarrow> int option" where
  "py_int s = (let (neg, u) = split_sign (strip s) in
     if digit_part u
     then (let n = int (digits_val 0 (filter (\<lambda>c. c \<noteq> CHR ''_'') u)) in Some (if neg then - n else n))
     else None)"

section \<open>The request\<close>

text \<open>What the handlers read from Flask's \<^verbatim>\<open>request\<close>: three URLs, the query
  arguments and the parsed JSON body.\<close>

record request =
  url_root :: string
  base_url :: string
  host_url :: string
  args :: "(string \<times> string) list"
  get_json :: dict

text \<open>\<^verbatim>\<open>request.args.get(key, default=d, type=int)\<close>: the default when the key is
  absent or its text is not an integer.\<close>

definition args_get_int :: "request \<Rightarrow> string \<Rightarrow> int \<Rightarrow> int" where
  "args_get_int req k dflt = (case map_of (args req) k of
       None \<Rightarrow> dflt
     | Some s \<Rightarrow> (case py_int s of None \<Rightarrow> dflt | Some i \<Rightarrow> i))"

definition error_body :: "string \<Rightarrow> json" where
  "error_body msg = obj [(''Error'', JStr msg)]"

definition ERROR_NOT_FOUND :: json where
  "ERROR_NOT_FOUND = error_body ''No business with this business_id exists''"

definition ERROR_REVIEW_NOT_FOUND :: json where
  "ERROR_REVIEW_NOT_FOUND = error_body ''No review with this review_id exists''"

definition ERROR_BAD_REQUEST :: json where
  "ERROR_BAD_REQUEST = error_body ''The request body is missing at least one of the required attributes''"

definition ERROR_CONFLICT :: json where
  "ERROR_CONFLICT = error_body ''You have already submitted a review for this business. You can update your previous review, or delete it and submit a new review''"

section \<open>The store\<close>

text \<open>
  The two tables of \<^verbatim>\<open>create_table\<close>. A table is the list of its rows in the order a
  \<^verbatim>\<open>SELECT\<close> without \<^verbatim>\<open>ORDER BY\<close> yields them, which is taken to be the order
  of insertion. \<open>stars\<close> and \<open>review_text\<close> have no \<^verbatim>\<open>NOT NULL\<close>: they may hold
  \<^verbatim>\<open>NULL\<close> (\<open>None\<close>). Each table has the next value of its \<^verbatim>\<open>SERIAL\<close> column.
\<close>

record business =
  b_id :: int
  b_owner_id :: int
  b_name :: string
  b_street_address :: string
  b_city :: string
  b_state :: string
  b_zip_code :: string

record review =
  r_id :: int
  r_user_id :: int
  r_business_id :: int
  r_stars :: "int option"
  r_review_text :: "string option"

record database =
  businesses :: "business list"
  reviews :: "review list"
  businesses_seq :: int
  reviews_seq :: int

definition empty_db :: database where
  "empty_db = \<lparr>businesses = [], reviews = [], businesses_seq = 1, reviews_seq = 1\<rparr>"

subsection \<open>Binding a value to a column\<close>

text \<open>
  The engine is taken in its default strict mode, enforcing the constraints that
  \<^verbatim>\<open>create_table\<close> declares: a value that does not fit its column (a null in a
  \<^verbatim>\<open>NOT NULL\<close> column, an integer outside the range of \<^verbatim>\<open>INT\<close>, a text longer than
  the \<^verbatim>\<open>VARCHAR\<close>, stars outside the \<^verbatim>\<open>CHECK\<close>) makes the statement fail. What the
  engine does with a value of another type than the column's:
  \<^item> a number with a fraction bound to an \<^verbatim>\<open>INT\<close> column is rounded and stored, without
    an error; compared with an \<^verbatim>\<open>INT\<close> column it is not rounded, so it equals no
    integer unless it is whole;
  \<^item> text bound to an \<^verbatim>\<open>INT\<close> column is read as a number (white space, a sign,
    digits, a fraction, an exponent) and rounded; text that is not wholly a number makes
    the statement fail; compared with an \<^verbatim>\<open>INT\<close> column, text counts as the number
    it starts with, and as 0 when it starts with none;
  \<^item> a boolean is sent as 1 or 0;
  \<^item> a number bound to a \<^verbatim>\<open>VARCHAR\<close> column is stored as its decimal text.
\<close>

definition is_sql_space :: "char \<Rightarrow> bool" where
  "is_sql_space c = ((of_char c :: nat) \<in> {9, 10, 11, 12, 13, 32})"

text \<open>The exponent of a number in text: \<^verbatim>\<open>e\<close> or \<^verbatim>\<open>E\<close>, a sign, digits. Without a
  digit there is no exponent and the text is left where it was.\<close>

definition text_exponent :: "string \<Rightarrow> int \<times> string" where
  "text_exponent s = (case s of
       [] \<Rightarrow> (0, s)
     | c # t \<Rightarrow>
         if c = CHR ''e'' \<or> c = CHR ''E''
         then (let (neg, u) = split_sign t; ds = takeWhile is_digit u
               in if ds = [] then (0, s)
                  else (if neg then - int (digits_val 0 ds) else int (digits_val 0 ds),
                        dropWhile is_digit u))
         else (0, s))"

text \<open>The number \<open>m / 10 ^ e\<close> times \<open>10 ^ x\<close>.\<close>

definition dec_shift :: "int \<Rightarrow> nat \<Rightarrow> int \<Rightarrow> int \<times> nat" where
  "dec_shift m e x =
     (if x < 0 then (m, e + nat (- x))
      else if nat x \<le> e then (m, e - nat x)
      else (m * 10 ^ (nat x - e), 0))"

text \<open>The number a text starts with, as \<open>(m, e)\<close> for \<open>m / 10 ^ e\<close>, and the text
  after it; \<open>None\<close> when the text starts with no number.\<close>

definition text_number :: "string \<Rightarrow> (int \<times> nat) option \<times> string" where
  "text_number s =
     (let (neg, u) = split_sign (dropWhile is_sql_space s);
          ip = takeWhile is_digit u;
          r = dropWhile is_digit u;
          (fp, r1) = (case r of
               [] \<Rightarrow> ([], r)
             | c # t \<Rightarrow> if c = CHR ''.'' then (takeWhile is_digit t, dropWhile is_digit t)
                        else ([], r))
      in if ip = [] \<and> fp = [] then (None, s)
         else (let n = int (digits_val 0 (ip @ fp));
                   (x, r2) = text_exponent r1
               in (Some (dec_shift (if neg then - n else n) (length fp) x), r2)))"

definition in_int_range :: "int \<Rightarrow> bool" where
  "in_int_range i = (- 2147483648 \<le> i \<and> i \<le> 2147483647)"

definition int_in_range :: "int \<Rightarrow> exn + int option" where
  "int_in_range i = (if in_int_range i then Inr (Some i) else Inl DBError)"

definition int_column :: "jval \<Rightarrow> exn + int option" where
  "int_column v = (case v of
       JNull \<Rightarrow> Inr None
     | JBool b \<Rightarrow> Inr (Some (if b then 1 else 0))
     | JInt i \<Rightarrow> int_in_range i
     | JDec m e \<Rightarrow> int_in_range (dec_round m e)
     | JStr s \<Rightarrow> (case text_number s of
           (None, r) \<Rightarrow> Inl DBError
         | (Some (m, e), r) \<Rightarrow>
             if list_all is_sql_space r then int_in_range (dec_round m e) else Inl DBError))"

text \<open>The text the engine makes of a number: a whole number has no point.\<close>

definition sql_text :: "int \<Rightarrow> nat \<Rightarrow> string" where
  "sql_text m e = (case strip_zeros m e of
       (m', 0) \<Rightarrow> str_int m'
     | (m', Suc e') \<Rightarrow> dec_plain m' (Suc e'))"

definition varchar_fits :: "nat \<Rightarrow> string \<Rightarrow> exn + string option" where
  "varchar_fits n s = (if length s \<le> n then Inr (Some s) else Inl DBError)"

definition varchar_column :: "nat \<Rightarrow> jval \<Rightarrow> exn + string option" where
  "varchar_column n v = (case v of
       JNull \<Rightarrow> Inr None
     | JBool b \<Rightarrow> varchar_fits n (if b then ''1'' else ''0'')
     | JInt i \<Rightarrow> varchar_fits n (str_int i)
     | JDec m e \<Rightarrow> varchar_fits n (sql_text m e)
     | JStr s \<Rightarrow> varchar_fits n s)"

text \<open>\<^verbatim>\<open>NOT NULL\<close>.\<close>

definition not_null :: "exn + 'a option \<Rightarrow> exn + 'a" where
  "not_null c = (case c of Inl e \<Rightarrow> Inl e | Inr None \<Rightarrow> Inl DBError | Inr (Some x) \<Rightarrow> Inr x)"

text \<open>\<^verbatim>\<open>CHECK (stars BETWEEN 0 and 5)\<close>, on the value as stored: a \<^verbatim>\<open>NULL\<close> passes.\<close>

definition stars_column :: "jval \<Rightarrow> exn + int option" where
  "stars_column v = (case int_column v of
       Inl e \<Rightarrow> Inl e
     | Inr None \<Rightarrow> Inr None
     | Inr (Some i) \<Rightarrow> if 0 \<le> i \<and> i \<le> 5 then Inr (Some i) else Inl DBError)"

text \<open>\<^verbatim>\<open>column = :param\<close> on an integer column: never true of \<^verbatim>\<open>NULL\<close>, and the
  parameter is not rounded.\<close>

definition sql_eq_int :: "int \<Rightarrow> jval \<Rightarrow> bool" where
  "sql_eq_int c v = (case v of
       JNull \<Rightarrow> False
     | JBool b \<Rightarrow> c = (if b then 1 else 0)
     | JInt i \<Rightarrow> c = i
     | JDec m e \<Rightarrow> dec_eq_int c m e
     | JStr s \<Rightarrow> (case fst (text_number s) of
           None \<Rightarrow> c = 0
         | Some (m, e) \<Rightarrow> dec_eq_int c m e))"

text \<open>A value that is not fractional: null, a boolean, an integer, or a number or a
  text whose value is whole.\<close>

definition whole :: "jval \<Rightarrow> bool" where
  "whole v = (case v of
       JDec m e \<Rightarrow> m mod 10 ^ e = 0
     | JStr s \<Rightarrow> (case fst (text_number s) of None \<Rightarrow> True | Some (m, e) \<Rightarrow> m mod 10 ^ e = 0)
     | _ \<Rightarrow> True)"


subsection \<open>Running one statement after another\<close>

text \<open>An exception ends the sequence: the rest is not run.\<close>

definition and_then :: "exn + 'a \<Rightarrow> ('a \<Rightarrow> exn + 'b) \<Rightarrow> exn + 'b" where
  "and_then m f = (case m of Inl e \<Rightarrow> Inl e | Inr x \<Rightarrow> f x)"

text \<open>\<^verbatim>\<open>.one_or_none()\<close> of a result.\<close>

fun one_or_none :: "'a list \<Rightarrow> exn + 'a option" where
  "one_or_none [] = Inr None"
| "one_or_none [x] = Inr (Some x)"
| "one_or_none (x # y # zs) = Inl MultipleResultsFound"

text \<open>\<^verbatim>\<open>SELECT * FROM t LIMIT :limit OFFSET :offset\<close>. The engine accepts only
  non-negative numbers after \<^verbatim>\<open>LIMIT\<close> and \<^verbatim>\<open>OFFSET\<close>: the statement fails on a
  negative one.\<close>

definition select_limit_offset :: "'a list \<Rightarrow> int \<Rightarrow> int \<Rightarrow> exn + 'a list" where
  "select_limit_offset rows lim off =
     (if lim < 0 \<or> off < 0 then Inl DBError else Inr (take (nat lim) (drop (nat off) rows)))"

text \<open>\<^verbatim>\<open>xs[:limit]\<close>: a negative limit counts from the end.\<close>

definition slice_to :: "'a list \<Rightarrow> int \<Rightarrow> 'a list" where
  "slice_to xs lim = (if 0 \<le> lim then take (nat lim) xs else take (nat (int (length xs) + lim)) xs)"

subsection \<open>Statements on \<^verbatim>\<open>businesses\<close>\<close>

text \<open>\<^verbatim>\<open>SELECT * FROM businesses WHERE id=:id\<close>, with the id of the URL.\<close>

definition select_business :: "database \<Rightarrow> int \<Rightarrow> business list" where
  "select_business db i = filter (\<lambda>b. b_id b = i) (businesses db)"

text \<open>The six columns a business is written with, each converted to its column.\<close>

definition business_columns ::
  "jval \<Rightarrow> jval \<Rightarrow> jval \<Rightarrow> jval \<Rightarrow> jval \<Rightarrow> jval \<Rightarrow> exn + (int \<Rightarrow> business)" where
  "business_columns owner_id name street_address city state zip_code =
     and_then (not_null (int_column owner_id)) (\<lambda>c1.
     and_then (not_null (varchar_column 50 name)) (\<lambda>c2.
     and_then (not_null (varchar_column 100 street_address)) (\<lambda>c3.
     and_then (not_null (varchar_column 50 city)) (\<lambda>c4.
     and_then (not_null (varchar_column 2 state)) (\<lambda>c5.
     and_then (not_null (varchar_column 5 zip_code)) (\<lambda>c6.
       Inr (\<lambda>i. \<lparr>b_id = i, b_owner_id = c1, b_name = c2, b_street_address = c3,
                 b_city = c4, b_state = c5, b_zip_code = c6\<rparr>)))))))"

text \<open>\<^verbatim>\<open>INSERT INTO businesses(...)\<close> followed by \<^verbatim>\<open>SELECT last_insert_id()\<close>.\<close>

definition insert_business ::
  "database \<Rightarrow> jval \<Rightarrow> jval \<Rightarrow> jval \<Rightarrow> jval \<Rightarrow> jval \<Rightarrow> jval \<Rightarrow> exn + (database \<times> int)" where
  "insert_business db owner_id name street_address city state zip_code =
     and_then (business_columns owner_id name street_address city state zip_code) (\<lambda>row.
       Inr (db\<lparr>businesses := businesses db @ [row (businesses_seq db)],
                businesses_seq := businesses_seq db + 1\<rparr>, businesses_seq db))"

text \<open>\<^verbatim>\<open>UPDATE businesses SET ... WHERE id = :id\<close>.\<close>

definition update_business ::
  "database \<Rightarrow> int \<Rightarrow> jval \<Rightarrow> jval \<Rightarrow> jval \<Rightarrow> jval \<Rightarrow> jval \<Rightarrow> jval \<Rightarrow> exn + database" where
  "update_business db i owner_id name street_address city state zip_code =
     and_then (business_columns owner_id name street_address city state zip_code) (\<lambda>row.
       Inr (db\<lparr>businesses := map (\<lambda>b. if b_id b = i then row i else b) (businesses db)\<rparr>))"

text \<open>\<^verbatim>\<open>DELETE FROM businesses WHERE id=:id\<close>, with its \<^verbatim>\<open>rowcount\<close>.\<close>

definition delete_business_row :: "database \<Rightarrow> int \<Rightarrow> database \<times> nat" where
  "delete_business_row db i =
     (db\<lparr>businesses := filter (\<lambda>b. b_id b \<noteq> i) (businesses db)\<rparr>,
      length (filter (\<lambda>b. b_id b = i) (businesses db)))"

text \<open>\<^verbatim>\<open>SELECT 1 FROM businesses WHERE id = :business_id\<close>, read with \<^verbatim>\<open>.scalar()\<close>
  and tested for truth.\<close>

definition business_check :: "database \<Rightarrow> jval \<Rightarrow> bool" where
  "business_check db business_id = (filter (\<lambda>b. sql_eq_int (b_id b) business_id) (businesses db) \<noteq> [])"

subsection \<open>Statements on \<^verbatim>\<open>reviews\<close>\<close>

definition select_review :: "database \<Rightarrow> int \<Rightarrow> review list" where
  "select_review db i = filter (\<lambda>r. r_id r = i) (reviews db)"

text \<open>\<^verbatim>\<open>DELETE FROM reviews WHERE business_id=:id\<close>.\<close>

definition delete_reviews_of_business :: "database \<Rightarrow> int \<Rightarrow> database" where
  "delete_reviews_of_business db i = db\<lparr>reviews := filter (\<lambda>r. r_business_id r \<noteq> i) (reviews db)\<rparr>"

text \<open>\<^verbatim>\<open>DELETE FROM reviews WHERE id=:id\<close>, with its \<^verbatim>\<open>rowcount\<close>.\<close>

definition delete_review_row :: "database \<Rightarrow> int \<Rightarrow> database \<times> nat" where
  "delete_review_row db i =
     (db\<lparr>reviews := filter (\<lambda>r. r_id r \<noteq> i) (reviews db)\<rparr>,
      length (filter (\<lambda>r. r_id r = i) (reviews db)))"

text \<open>\<^verbatim>\<open>SELECT 1 FROM reviews WHERE user_id = :user_id AND business_id = :business_id\<close>,
  read with \<^verbatim>\<open>.fetchone()\<close> and tested for truth.\<close>

definition existing_review :: "database \<Rightarrow> jval \<Rightarrow> jval \<Rightarrow> bool" where
  "existing_review db user_id business_id =
     (filter (\<lambda>r. sql_eq_int (r_user_id r) user_id \<and> sql_eq_int (r_business_id r) business_id)
        (reviews db) \<noteq> [])"

text \<open>\<^verbatim>\<open>INSERT INTO reviews (user_id, business_id, stars, review_text)\<close> followed by
  \<^verbatim>\<open>SELECT last_insert_id()\<close>.\<close>

definition insert_review :: "database \<Rightarrow> jval \<Rightarrow> jval \<Rightarrow> jval \<Rightarrow> jval \<Rightarrow> exn + (database \<times> int)" where
  "insert_review db user_id business_id stars review_text =
     and_then (not_null (int_column user_id)) (\<lambda>c1.
     and_then (not_null (int_column business_id)) (\<lambda>c2.
     and_then (stars_column stars) (\<lambda>c3.
     and_then (varchar_column 1000 review_text) (\<lambda>c4.
       Inr (db\<lparr>reviews := reviews db @
                   [\<lparr>r_id = reviews_seq db, r_user_id = c1, r_business_id = c2,
                     r_stars = c3, r_review_text = c4\<rparr>],
                reviews_seq := reviews_seq db + 1\<rparr>, reviews_seq db)))))"

text \<open>\<^verbatim>\<open>SELECT 1 FROM reviews WHERE id = :id\<close>, read with \<^verbatim>\<open>.scalar()\<close>.\<close>

definition exists_check :: "database \<Rightarrow> int \<Rightarrow> bool" where
  "exists_check db i = (select_review db i \<noteq> [])"

text \<open>A bound parameter of a statement; a parameter the statement names and the
  dict lacks makes the statement fail.\<close>

definition bound :: "dict \<Rightarrow> string \<Rightarrow> exn + jval" where
  "bound params k = (case map_of params k of None \<Rightarrow> Inl DBError | Some v \<Rightarrow> Inr v)"

text \<open>One assignment of the \<^verbatim>\<open>SET\<close> clause that \<^verbatim>\<open>put_review\<close> assembles.\<close>

definition set_clause :: "string \<Rightarrow> dict \<Rightarrow> exn + (review \<Rightarrow> review)" where
  "set_clause part params =
     (if part = ''stars = :stars''
      then and_then (bound params ''stars'') (\<lambda>v.
           and_then (stars_column v) (\<lambda>c. Inr (\<lambda>r. r\<lparr>r_stars := c\<rparr>)))
      else if part = ''review_text = :review_text''
      then and_then (bound params ''review_text'') (\<lambda>v.
           and_then (varchar_column 1000 v) (\<lambda>c. Inr (\<lambda>r. r\<lparr>r_review_text := c\<rparr>)))
      else Inl DBError)"

fun set_clauses :: "string list \<Rightarrow> dict \<Rightarrow> exn + (review \<Rightarrow> review)" where
  "set_clauses [] params = Inr (\<lambda>r. r)"
| "set_clauses (part # parts) params =
     and_then (set_clause part params) (\<lambda>f.
     and_then (set_clauses parts params) (\<lambda>g. Inr (\<lambda>r. g (f r))))"

text \<open>\<^verbatim>\<open>'UPDATE reviews SET ' + ', '.join(update_parts) + ' WHERE id = :id'\<close>; with no
  assignment the text is not a statement.\<close>

definition update_reviews :: "database \<Rightarrow> string list \<Rightarrow> dict \<Rightarrow> exn + database" where
  "update_reviews db update_parts update_params =
     (if update_parts = [] then Inl DBError
      else and_then (set_clauses update_parts update_params) (\<lambda>f.
           and_then (bound update_params ''id'') (\<lambda>i.
             Inr (db\<lparr>reviews := map (\<lambda>r. if sql_eq_int (r_id r) i then f r else r) (reviews db)\<rparr>))))"

subsection \<open>Rows as dicts\<close>

text \<open>\<^verbatim>\<open>row._asdict()\<close>: the columns in the order of the table.\<close>

definition business_asdict :: "business \<Rightarrow> dict" where
  "business_asdict b =
     [(''id'', JInt (b_id b)), (''owner_id'', JInt (b_owner_id b)), (''name'', JStr (b_name b)),
      (''street_address'', JStr (b_street_address b)), (''city'', JStr (b_city b)),
      (''state'', JStr (b_state b)), (''zip_code'', JStr (b_zip_code b))]"

definition nullable_int :: "int option \<Rightarrow> jval" where
  "nullable_int c = (case c of None \<Rightarrow> JNull | Some i \<Rightarrow> JInt i)"

definition nullable_text :: "string option \<Rightarrow> jval" where
  "nullable_text c = (case c of None \<Rightarrow> JNull | Some s \<Rightarrow> JStr s)"

definition review_asdict :: "review \<Rightarrow> dict" where
  "review_asdict r =
     [(''id'', JInt (r_id r)), (''user_id'', JInt (r_user_id r)),
      (''business_id'', JInt (r_business_id r)), (''stars'', nullable_int (r_stars r)),
      (''review_text'', nullable_text (r_review_text r))]"

text \<open>\<^verbatim>\<open>int(x)\<close> on an attribute value.\<close>

definition int_of_jval :: "jval \<Rightarrow> exn + int" where
  "int_of_jval v = (case v of
       JNull \<Rightarrow> Inl TypeError
     | JBool b \<Rightarrow> Inr (if b then 1 else 0)
     | JInt i \<Rightarrow> Inr i
     | JDec m e \<Rightarrow> Inr (dec_trunc m e)
     | JStr s \<Rightarrow> (case py_int s of None \<Rightarrow> Inl ValueError | Some i \<Rightarrow> Inr i))"


section \<open>The handlers\<close>

text \<open>
  A handler takes the request, the store and the id of the URL, and gives its result; a
  handler that writes also gives the store it leaves. A change is kept when the handler
  reaches \<^verbatim>\<open>conn.commit()\<close>; leaving the \<^verbatim>\<open>with\<close> block before that discards it.
\<close>

text \<open>
  A row made into a dict has every column as a key, so reading \<^verbatim>\<open>review['id']\<close> from
  such a dict cannot raise; it is written \<open>dict_get review ''id'' JNull\<close>, whose default
  is never used.
\<close>

text \<open>The two \<^verbatim>\<open>except\<close> clauses of the handlers that write.\<close>

definition handle_exn :: "string \<Rightarrow> exn \<Rightarrow> response" where
  "handle_exn msg e = (case e of
       KeyError k \<Rightarrow> (ERROR_BAD_REQUEST, 400)
     | _ \<Rightarrow> (error_body msg, 500))"

subsection \<open>Businesses\<close>

definition post_businesses_try :: "request \<Rightarrow> database \<Rightarrow> exn + (response \<times> database)" where
  "post_businesses_try req db = (let content = get_json req in
     and_then (getitem content ''owner_id'') (\<lambda>owner_id.
     and_then (getitem content ''name'') (\<lambda>name.
     and_then (getitem content ''street_address'') (\<lambda>street_address.
     and_then (getitem content ''city'') (\<lambda>city.
     and_then (getitem content ''state'') (\<lambda>state.
     and_then (getitem content ''zip_code'') (\<lambda>zip_code.
     and_then (insert_business db owner_id name street_address city state zip_code)
       (\<lambda>(db', business_id).
         (let complete_url = base_url req @ ''/'' @ str_int business_id in
          Inr ((obj [(''id'', JInt business_id), (''owner_id'', owner_id), (''name'', name),
                     (''street_address'', street_address), (''city'', city), (''state'', state),
                     (''zip_code'', zip_code), (''self'', JStr complete_url)], 201), db'))))))))))"

definition post_businesses :: "request \<Rightarrow> database \<Rightarrow> result \<times> database" where
  "post_businesses req db = (case post_businesses_try req db of
       Inr (resp, db') \<Rightarrow> (Inr resp, db')
     | Inl e \<Rightarrow> (Inr (handle_exn ''Unable to create business'' e), db))"

definition get_business :: "request \<Rightarrow> database \<Rightarrow> int \<Rightarrow> result" where
  "get_business req db i =
     and_then (one_or_none (select_business db i)) (\<lambda>row. case row of
         None \<Rightarrow> Inr (ERROR_NOT_FOUND, 404)
       | Some r \<Rightarrow> (let business = business_asdict r in
           and_then (getitem business ''zip_code'') (\<lambda>z.
           and_then (int_of_jval z) (\<lambda>n.
             (let business = setitem business ''zip_code'' (JInt n);
                  complete_url = url_root req @ ''businesses/'' @ str_int i;
                  business = setitem business ''self'' (JStr complete_url)
              in Inr (obj business, 200))))))"

definition put_business_try :: "request \<Rightarrow> database \<Rightarrow> int \<Rightarrow> exn + (response \<times> database)" where
  "put_business_try req db i =
     and_then (one_or_none (select_business db i)) (\<lambda>row. case row of
         None \<Rightarrow> Inr ((ERROR_NOT_FOUND, 404), db)
       | Some r \<Rightarrow> (let content = get_json req in
           and_then (getitem content ''owner_id'') (\<lambda>owner_id.
           and_then (getitem content ''name'') (\<lambda>name.
           and_then (getitem content ''street_address'') (\<lambda>street_address.
           and_then (getitem content ''city'') (\<lambda>city.
           and_then (getitem content ''state'') (\<lambda>state.
           and_then (getitem content ''zip_code'') (\<lambda>zip_code.
           and_then (update_business db i owner_id name street_address city state zip_code)
             (\<lambda>db'.
               (let complete_url = url_root req @ ''businesses/'' @ str_int i in
                Inr ((obj [(''id'', JInt i), (''owner_id'', owner_id), (''name'', name),
                           (''street_address'', street_address), (''city'', city),
                           (''state'', state), (''zip_code'', zip_code),
                           (''self'', JStr complete_url)], 200), db')))))))))))"

definition put_business :: "request \<Rightarrow> database \<Rightarrow> int \<Rightarrow> result \<times> database" where
  "put_business req db i = (case put_business_try req db i of
       Inr (resp, db') \<Rightarrow> (Inr resp, db')
     | Inl e \<Rightarrow> (Inr (handle_exn ''Unable to create business'' e), db))"

definition delete_business :: "database \<Rightarrow> int \<Rightarrow> result \<times> database" where
  "delete_business db i =
     (let db1 = delete_reviews_of_business db i;
          (db2, rowcount) = delete_business_row db1 i
      in if rowcount = 1 then (Inr (JVal (JStr ''''), 204), db2)
         else (Inr (ERROR_NOT_FOUND, 404), db2))"

text \<open>The loop of \<^verbatim>\<open>get_businesses\<close> over the rows it returns: its body for one
  row, and the loop, which stops at the first row whose body raises.\<close>

definition businesses_entry :: "request \<Rightarrow> business \<Rightarrow> exn + json" where
  "businesses_entry req row =
     (let business = business_asdict row in
      and_then (getitem business ''zip_code'') (\<lambda>z.
      and_then (int_of_jval z) (\<lambda>n.
        (let business = setitem business ''zip_code'' (JInt n);
             business = setitem business ''self''
                          (JStr (url_root req @ ''businesses/'' @ py_str (dict_get business ''id'' JNull)))
         in Inr (obj business)))))"

fun businesses_entries :: "request \<Rightarrow> business list \<Rightarrow> exn + json list" where
  "businesses_entries req [] = Inr []"
| "businesses_entries req (row # rows) =
     and_then (businesses_entry req row) (\<lambda>business.
     and_then (businesses_entries req rows) (\<lambda>businesses. Inr (business # businesses)))"

text \<open>The end of both listings: the \<^verbatim>\<open>next\<close> key when the query gave more than
  \<^verbatim>\<open>limit\<close> rows.\<close>

definition response_data :: "request \<Rightarrow> json list \<Rightarrow> nat \<Rightarrow> int \<Rightarrow> int \<Rightarrow> (string \<times> json) list" where
  "response_data req entries len_rows offset limit =
     (if int len_rows > limit
      then (let next_offset = offset + limit;
                next_url = base_url req @ ''?offset='' @ str_int next_offset @ ''&limit='' @ str_int limit
            in [(''entries'', JList entries), (''next'', JVal (JStr next_url))])
      else [(''entries'', JList entries)])"

definition get_businesses :: "request \<Rightarrow> database \<Rightarrow> result" where
  "get_businesses req db =
     (let offset = args_get_int req ''offset'' 0;
          limit = args_get_int req ''limit'' 3
      in and_then (select_limit_offset (businesses db) (limit + 1) offset) (\<lambda>rows.
         and_then (businesses_entries req (slice_to rows limit)) (\<lambda>businesses.
           Inr (JObj (response_data req businesses (length rows) offset limit), 200))))"

definition owner_entry :: "request \<Rightarrow> business \<Rightarrow> json" where
  "owner_entry req row =
     (let business = business_asdict row;
          business = setitem business ''self''
                       (JStr (url_root req @ ''businesses/'' @ py_str (dict_get business ''id'' JNull)))
      in obj business)"

definition get_bussiness_by_owner :: "request \<Rightarrow> database \<Rightarrow> int \<Rightarrow> result" where
  "get_bussiness_by_owner req db i =
     Inr (JList (map (owner_entry req) (filter (\<lambda>b. b_owner_id b = i) (businesses db))), 200)"

subsection \<open>Reviews\<close>

definition required_fields :: "string list" where
  "required_fields = [''user_id'', ''business_id'', ''stars'']"

definition post_review_try :: "request \<Rightarrow> database \<Rightarrow> exn + (response \<times> database)" where
  "post_review_try req db = (let content = get_json req in
     and_then (getitem content ''business_id'') (\<lambda>business_id.
       if \<not> business_check db business_id then Inr ((ERROR_NOT_FOUND, 404), db)
       else
     and_then (getitem content ''user_id'') (\<lambda>user_id.
       if existing_review db user_id business_id then Inr ((ERROR_CONFLICT, 409), db)
       else
     and_then (getitem content ''stars'') (\<lambda>stars.
       (let review_text = dict_get content ''review_text'' (JStr '''') in
     and_then (insert_review db user_id business_id stars review_text) (\<lambda>(db', review_id).
       (let complete_url = base_url req @ ''/'' @ str_int review_id;
            business_url = host_url req @ ''businesses/'' @ py_str business_id
        in Inr ((obj [(''id'', JInt review_id), (''user_id'', user_id),
                      (''business'', JStr business_url), (''stars'', stars),
                      (''review_text'', review_text), (''self'', JStr complete_url)], 201),
                db'))))))))"

definition post_review :: "request \<Rightarrow> database \<Rightarrow> result \<times> database" where
  "post_review req db =
     (let content = get_json req;
          missing_fields = filter (\<lambda>field. \<not> has_key content field) required_fields
      in if missing_fields \<noteq> [] then (Inr (ERROR_BAD_REQUEST, 400), db)
         else (case post_review_try req db of
             Inr (resp, db') \<Rightarrow> (Inr resp, db')
           | Inl e \<Rightarrow> (Inr (handle_exn ''Unable to create review'' e), db)))"

text \<open>The representation \<^verbatim>\<open>get_review\<close> and \<^verbatim>\<open>put_review\<close> build from a row:
  \<^verbatim>\<open>business\<close> in place of \<^verbatim>\<open>business_id\<close>. The two read the text differently
  (\<^verbatim>\<open>review['review_text']\<close> and \<^verbatim>\<open>review.get('review_text', '')\<close>), so that
  value is an argument.\<close>

definition review_response :: "dict \<Rightarrow> jval \<Rightarrow> string \<Rightarrow> string \<Rightarrow> dict" where
  "review_response review review_text business_url review_url =
     [(''id'', dict_get review ''id'' JNull), (''user_id'', dict_get review ''user_id'' JNull),
      (''business'', JStr business_url), (''stars'', dict_get review ''stars'' JNull),
      (''review_text'', review_text), (''self'', JStr review_url)]"

definition get_review :: "request \<Rightarrow> database \<Rightarrow> int \<Rightarrow> result" where
  "get_review req db i =
     and_then (one_or_none (select_review db i)) (\<lambda>row. case row of
         None \<Rightarrow> Inr (ERROR_REVIEW_NOT_FOUND, 404)
       | Some r \<Rightarrow> (let review = review_asdict r;
                        business_url = host_url req @ ''businesses/''
                                         @ py_str (dict_get review ''business_id'' JNull);
                        review_url = host_url req @ ''reviews/'' @ str_int i
                    in Inr (obj (review_response review (dict_get review ''review_text'' JNull)
                                   business_url review_url), 200)))"

definition update_parts :: "dict \<Rightarrow> string list" where
  "update_parts content =
     (if has_key content ''stars'' then [''stars = :stars''] else [])
     @ (if has_key content ''review_text'' then [''review_text = :review_text''] else [])"

definition copy_item :: "dict \<Rightarrow> string \<Rightarrow> dict \<Rightarrow> dict" where
  "copy_item content k params = (case map_of content k of
       None \<Rightarrow> params
     | Some v \<Rightarrow> setitem params k v)"

definition update_params :: "dict \<Rightarrow> dict" where
  "update_params content = copy_item content ''review_text'' (copy_item content ''stars'' [])"

definition put_review :: "request \<Rightarrow> database \<Rightarrow> int \<Rightarrow> result \<times> database" where
  "put_review req db i =
     (let content = get_json req in
      if \<not> has_key content ''stars'' then (Inr (ERROR_BAD_REQUEST, 400), db)
      else if update_parts content = []
      then (Inr (error_body ''No valid fields provided to update'', 400), db)
      else (let params = setitem (update_params content) ''id'' (JInt i) in
        if \<not> exists_check db i then (Inr (ERROR_REVIEW_NOT_FOUND, 404), db)
        else (case update_reviews db (update_parts content) params of
            Inl e \<Rightarrow> (Inl e, db)
          | Inr db' \<Rightarrow> (case one_or_none (select_review db' i) of
                Inl e \<Rightarrow> (Inl e, db')
              | Inr None \<Rightarrow> (Inr (ERROR_REVIEW_NOT_FOUND, 404), db')
              | Inr (Some r) \<Rightarrow>
                  (let review = review_asdict r;
                       business_url = host_url req @ ''businesses/''
                                        @ py_str (dict_get review ''business_id'' JNull);
                       review_url = host_url req @ ''reviews/'' @ str_int i
                   in (Inr (obj (review_response review
                                     (dict_get review ''review_text'' (JStr ''''))
                                     business_url review_url), 200), db'))))))"

definition delete_review :: "database \<Rightarrow> int \<Rightarrow> result \<times> database" where
  "delete_review db i =
     (let (db', rowcount) = delete_review_row db i
      in if rowcount = 1 then (Inr (JVal (JStr ''''), 204), db')
         else (Inr (ERROR_REVIEW_NOT_FOUND, 404), db'))"

definition user_entry :: "request \<Rightarrow> review \<Rightarrow> json" where
  "user_entry req row =
     (let review = review_asdict row;
          review = setitem review ''self''
                     (JStr (url_root req @ ''reviews/'' @ py_str (dict_get review ''id'' JNull)));
          business_url = url_root req @ ''businesses/'' @ py_str (dict_get review ''business_id'' JNull)
      in obj [(''id'', dict_get review ''id'' JNull), (''user_id'', dict_get review ''user_id'' JNull),
              (''business'', JStr business_url), (''stars'', dict_get review ''stars'' JNull),
              (''review_text'', dict_get review ''review_text'' JNull),
              (''self'', dict_get review ''self'' JNull)])"

definition get_review_by_user :: "request \<Rightarrow> database \<Rightarrow> int \<Rightarrow> result" where
  "get_review_by_user req db i =
     Inr (JList (map (user_entry req) (filter (\<lambda>r. r_user_id r = i) (reviews db))), 200)"

text \<open>The loop of \<^verbatim>\<open>get_reviews\<close>: the row as it is, with \<^verbatim>\<open>self\<close> added.\<close>

definition reviews_entry :: "request \<Rightarrow> review \<Rightarrow> json" where
  "reviews_entry req row =
     (let review = review_asdict row;
          review = setitem review ''self''
                     (JStr (url_root req @ ''reviews/'' @ py_str (dict_get review ''id'' JNull)))
      in obj review)"

definition get_reviews :: "request \<Rightarrow> database \<Rightarrow> result" where
  "get_reviews req db =
     (let offset = args_get_int req ''offset'' 0;
          limit = args_get_int req ''limit'' 3
      in and_then (select_limit_offset (reviews db) (limit + 1) offset) (\<lambda>rows.
           (let reviews = map (reviews_entry req) (slice_to rows limit)
            in Inr (JObj (response_data req reviews (length rows) offset limit), 200))))"

section \<open>Runs of the API\<close>

text \<open>One call of the API, and the store after a sequence of calls, one at a time,
  from empty tables.\<close>

datatype call =
    PostBusinesses request
  | GetBusiness request int
  | PutBusiness request int
  | DeleteBusiness int
  | GetBusinesses request
  | GetBussinessByOwner request int
  | PostReview request
  | GetReview request int
  | PutReview request int
  | DeleteReview int
  | GetReviewByUser request int
  | GetReviews request

fun step :: "database \<Rightarrow> call \<Rightarrow> database" where
  "step db (PostBusinesses req) = snd (post_businesses req db)"
| "step db (GetBusiness req i) = db"
| "step db (PutBusiness req i) = snd (put_business req db i)"
| "step db (DeleteBusiness i) = snd (delete_business db i)"
| "step db (GetBusinesses req) = db"
| "step db (GetBussinessByOwner req i) = db"
| "step db (PostReview req) = snd (post_review req db)"
| "step db (GetReview req i) = db"
| "step db (PutReview req i) = snd (put_review req db i)"
| "step db (DeleteReview i) = snd (delete_review db i)"
| "step db (GetReviewByUser req i) = db"
| "step db (GetReviews req) = db"

definition run :: "call list \<Rightarrow> database" where
  "run calls = foldl step empty_db calls"

text \<open>The invariant of the data model: at most one review for a pair of a user and a
  business.\<close>

definition review_pair :: "review \<Rightarrow> int \<times> int" where
  "review_pair r = (r_user_id r, r_business_id r)"

definition unique_pairs :: "database \<Rightarrow> bool" where
  "unique_pairs db = distinct (map review_pair (reviews db))"

text \<open>A body of \<^verbatim>\<open>POST /reviews\<close> whose \<^verbatim>\<open>user_id\<close> and \<^verbatim>\<open>business_id\<close>, where it
  has them, are not fractional; and a call that is not a \<^verbatim>\<open>POST /reviews\<close> with a
  fractional one.\<close>

definition whole_item :: "dict \<Rightarrow> string \<Rightarrow> bool" where
  "whole_item content k = (case map_of content k of None \<Rightarrow> True | Some v \<Rightarrow> whole v)"

definition review_ids_whole :: "request \<Rightarrow> bool" where
  "review_ids_whole req =
     (whole_item (get_json req) ''user_id'' \<and> whole_item (get_json req) ''business_id'')"

fun call_ids_whole :: "call \<Rightarrow> bool" where
  "call_ids_whole (PostReview req) = review_ids_whole req"
| "call_ids_whole c = True"

section \<open>A small store and a request, for concrete instances\<close>

definition ex_business :: business where
  "ex_business = \<lparr>b_id = 1, b_owner_id = 7, b_name = ''Cafe'', b_street_address = ''1 Main St'',
                    b_city = ''Bend'', b_state = ''OR'', b_zip_code = ''97330''\<rparr>"

definition ex_review :: review where
  "ex_review = \<lparr>r_id = 1, r_user_id = 5, r_business_id = 1, r_stars = Some 3,
                  r_review_text = Some ''good''\<rparr>"

definition ex_db :: database where
  "ex_db = \<lparr>businesses = [ex_business], reviews = [ex_review],
              businesses_seq = 2, reviews_seq = 2\<rparr>"

definition ex_req :: request where
  "ex_req = \<lparr>url_root = ''http://api/'', base_url = ''http://api/r'', host_url = ''http://api/'',
               args = [], get_json = []\<rparr>"

section \<open>Basic facts\<close>

lemma and_then_Inr [simp]: "and_then (Inr x) f = f x"
  by (simp add: and_then_def)

lemma and_then_Inl [simp]: "and_then (Inl e) f = Inl e"
  by (simp add: and_then_def)

lemma one_or_none_filter_empty:
  "\<forall>x\<in>set xs. \<not> P x \<Longrightarrow> one_or_none (filter P xs) = Inr None"
  by (simp add: filter_False)

text \<open>A key that is unique in a table selects exactly its row.\<close>

lemma filter_unique_key:
  assumes "distinct (map f xs)" and "x \<in> set xs"
  shows "filter (\<lambda>y. f y = f x) xs = [x]"
  using assms
proof (induction xs)
  case Nil
  then show ?case by simp
next
  case (Cons a xs)
  show ?case
  proof (cases "a = x")
    case True
    with Cons.prems have "f x \<notin> f ` set xs" by simp
    then have "\<forall>y\<in>set xs. f y \<noteq> f x" by (metis image_eqI)
    then have "filter (\<lambda>y. f y = f x) xs = []" by (simp add: filter_False)
    with True show ?thesis by simp
  next
    case False
    with Cons.prems have "x \<in> set xs" and "f a \<noteq> f x" and "distinct (map f xs)" by auto
    with Cons.IH show ?thesis by simp
  qed
qed

lemma error_bodies_distinct:
  "ERROR_BAD_REQUEST \<noteq> error_body ''No valid fields provided to update''"
  by (simp add: ERROR_BAD_REQUEST_def error_body_def obj_def)

text \<open>The example store, unfolded.\<close>

lemmas ex_defs = ex_db_def ex_business_def ex_review_def ex_req_def

section \<open>Deleting a business\<close>

lemma delete_business_state:
  "snd (delete_business db i) =
     db\<lparr>reviews := filter (\<lambda>r. r_business_id r \<noteq> i) (reviews db),
        businesses := filter (\<lambda>b. b_id b \<noteq> i) (businesses db)\<rparr>"
  by (simp add: delete_business_def delete_reviews_of_business_def delete_business_row_def Let_def)

lemma delete_business_result:
  "fst (delete_business db i) =
     (if length (filter (\<lambda>b. b_id b = i) (businesses db)) = 1
      then Inr (JVal (JStr ''''), 204) else Inr (ERROR_NOT_FOUND, 404))"
  by (simp add: delete_business_def delete_reviews_of_business_def delete_business_row_def Let_def)

text \<open>
  C2. \<^verbatim>\<open>DELETE /businesses/{id}\<close> removes every review whose \<open>business_id\<close> is the id
  and then the business rows with that id. It answers 204 when exactly one business row
  went and 404 with the business not-found message otherwise. Afterwards no review with
  that \<open>business_id\<close> is left, and, review ids being unique (the primary key), fetching
  any review that had it answers review not-found. The reviews are gone also when no
  business row had the id.
\<close>

theorem delete_business_cascade:
  "fst (delete_business db i) =
     (if length (filter (\<lambda>b. b_id b = i) (businesses db)) = 1
      then Inr (JVal (JStr ''''), 204) else Inr (ERROR_NOT_FOUND, 404))
   \<and> reviews (snd (delete_business db i)) = filter (\<lambda>r. r_business_id r \<noteq> i) (reviews db)
   \<and> businesses (snd (delete_business db i)) = filter (\<lambda>b. b_id b \<noteq> i) (businesses db)
   \<and> (\<forall>r\<in>set (reviews (snd (delete_business db i))). r_business_id r \<noteq> i)
   \<and> (distinct (map r_id (reviews db)) \<longrightarrow>
        (\<forall>r\<in>set (reviews db). r_business_id r = i \<longrightarrow>
           get_review req (snd (delete_business db i)) (r_id r) = Inr (ERROR_REVIEW_NOT_FOUND, 404)))
   \<and> ((\<forall>b\<in>set (businesses db). b_id b \<noteq> i) \<longrightarrow>
        fst (delete_business db i) = Inr (ERROR_NOT_FOUND, 404)
        \<and> reviews (snd (delete_business db i)) = filter (\<lambda>r. r_business_id r \<noteq> i) (reviews db))"
proof (intro conjI impI ballI)
  show "fst (delete_business db i) =
     (if length (filter (\<lambda>b. b_id b = i) (businesses db)) = 1
      then Inr (JVal (JStr ''''), 204) else Inr (ERROR_NOT_FOUND, 404))"
    by (rule delete_business_result)
next
  show "reviews (snd (delete_business db i)) = filter (\<lambda>r. r_business_id r \<noteq> i) (reviews db)"
    by (simp add: delete_business_state)
next
  show "businesses (snd (delete_business db i)) = filter (\<lambda>b. b_id b \<noteq> i) (businesses db)"
    by (simp add: delete_business_state)
next
  fix r assume "r \<in> set (reviews (snd (delete_business db i)))"
  then show "r_business_id r \<noteq> i"
    by (simp add: delete_business_state)
next
  fix r
  assume d: "distinct (map r_id (reviews db))" and r: "r \<in> set (reviews db)"
    and b: "r_business_id r = i"
  have "filter (\<lambda>x. r_id x = r_id r) (reviews db) = [r]"
    using d r by (rule filter_unique_key)
  moreover have "filter (\<lambda>x. r_id x = r_id r) (filter (\<lambda>x. r_business_id x \<noteq> i) (reviews db))
      = filter (\<lambda>x. r_business_id x \<noteq> i) (filter (\<lambda>x. r_id x = r_id r) (reviews db))"
    by (simp add: conj_commute)
  ultimately have "filter (\<lambda>x. r_id x = r_id r) (filter (\<lambda>x. r_business_id x \<noteq> i) (reviews db)) = []"
    using b by simp
  then have "select_review (snd (delete_business db i)) (r_id r) = []"
    by (simp add: select_review_def delete_business_state)
  then show "get_review req (snd (delete_business db i)) (r_id r) = Inr (ERROR_REVIEW_NOT_FOUND, 404)"
    by (simp add: get_review_def)
next
  assume "\<forall>b\<in>set (businesses db). b_id b \<noteq> i"
  then have "filter (\<lambda>b. b_id b = i) (businesses db) = []"
    by (simp add: filter_False)
  then show "fst (delete_business db i) = Inr (ERROR_NOT_FOUND, 404)"
    by (simp add: delete_business_result)
next
  show "reviews (snd (delete_business db i)) = filter (\<lambda>r. r_business_id r \<noteq> i) (reviews db)"
    by (simp add: delete_business_state)
qed

text \<open>On the example store: deleting business 1 answers 204 and its review cannot be
  fetched any more; deleting business 9, which does not exist, answers 404.\<close>

theorem delete_business_cascade_witness:
  "fst (delete_business ex_db 1) = Inr (JVal (JStr ''''), 204)
   \<and> reviews (snd (delete_business ex_db 1)) = []
   \<and> distinct (map r_id (reviews ex_db))
   \<and> ex_review \<in> set (reviews ex_db) \<and> r_business_id ex_review = 1
   \<and> get_review ex_req (snd (delete_business ex_db 1)) 1 = Inr (ERROR_REVIEW_NOT_FOUND, 404)
   \<and> map b_id (businesses ex_db) = [1]
   \<and> fst (delete_business ex_db 9) = Inr (ERROR_NOT_FOUND, 404)
   \<and> reviews (snd (delete_business ex_db 9)) = [ex_review]"
  using delete_business_cascade [of ex_db 1 ex_req] delete_business_cascade [of ex_db 9 ex_req]
  by (simp add: ex_defs)

section \<open>Replacing a business\<close>

text \<open>
  C8. \<^verbatim>\<open>PUT /businesses/{id}\<close> looks the row up before it reads the body: when no
  business row has the id, the answer is 404 with the business not-found message and the
  store is untouched, whatever the body holds; so an answer 400 for a missing attribute
  means that a business row with the id exists.
\<close>

theorem put_business_checks_existence_first:
  "((\<forall>b\<in>set (businesses db). b_id b \<noteq> i) \<longrightarrow>
      put_business req db i = (Inr (ERROR_NOT_FOUND, 404), db))
   \<and> (fst (put_business req db i) = Inr (ERROR_BAD_REQUEST, 400) \<longrightarrow>
      (\<exists>b\<in>set (businesses db). b_id b = i))"
proof (intro conjI impI)
  assume none: "\<forall>b\<in>set (businesses db). b_id b \<noteq> i"
  then have "one_or_none (select_business db i) = Inr None"
    unfolding select_business_def by (intro one_or_none_filter_empty) simp
  then show "put_business req db i = (Inr (ERROR_NOT_FOUND, 404), db)"
    by (simp add: put_business_def put_business_try_def)
next
  assume bad: "fst (put_business req db i) = Inr (ERROR_BAD_REQUEST, 400)"
  show "\<exists>b\<in>set (businesses db). b_id b = i"
  proof (rule ccontr)
    assume "\<not> (\<exists>b\<in>set (businesses db). b_id b = i)"
    then have "one_or_none (select_business db i) = Inr None"
      unfolding select_business_def by (intro one_or_none_filter_empty) simp
    then have "put_business req db i = (Inr (ERROR_NOT_FOUND, 404), db)"
      by (simp add: put_business_def put_business_try_def)
    with bad show False
      by (simp add: ERROR_NOT_FOUND_def ERROR_BAD_REQUEST_def error_body_def obj_def)
  qed
qed

text \<open>With an empty body: 404 for the absent business 9, 400 for the existing
  business 1.\<close>

theorem put_business_checks_existence_first_witness:
  "map b_id (businesses ex_db) = [1]
   \<and> put_business ex_req ex_db 9 = (Inr (ERROR_NOT_FOUND, 404), ex_db)
   \<and> fst (put_business ex_req ex_db 1) = Inr (ERROR_BAD_REQUEST, 400)
   \<and> (\<exists>b\<in>set (businesses ex_db). b_id b = 1)"
proof -
  have none: "\<forall>b\<in>set (businesses ex_db). b_id b \<noteq> 9"
    by (simp add: ex_defs)
  have bad: "fst (put_business ex_req ex_db 1) = Inr (ERROR_BAD_REQUEST, 400)"
    by (simp add: put_business_def put_business_try_def select_business_def getitem_def
          handle_exn_def ex_defs)
  have ids: "map b_id (businesses ex_db) = [1]"
    by (simp add: ex_defs)
  show ?thesis
    using none bad ids put_business_checks_existence_first [of ex_db 9 ex_req]
      put_business_checks_existence_first [of ex_db 1 ex_req]
    by blast
qed

section \<open>Updating a review: the dead branch\<close>

text \<open>
  C9. In \<^verbatim>\<open>PUT /reviews/{id}\<close> the answer
  \<^verbatim>\<open>{'Error': 'No valid fields provided to update'}\<close> with status 400 is never given:
  a body without \<^verbatim>\<open>stars\<close> has already been answered with the fixed bad-request
  error, and a body with \<^verbatim>\<open>stars\<close> makes \<^verbatim>\<open>update_parts\<close> non-empty.
\<close>

theorem put_review_no_valid_fields_unreachable:
  "fst (put_review req db i) \<noteq> Inr (error_body ''No valid fields provided to update'', 400)
   \<and> (\<not> has_key (get_json req) ''stars'' \<longrightarrow> put_review req db i = (Inr (ERROR_BAD_REQUEST, 400), db))
   \<and> (has_key (get_json req) ''stars'' \<longrightarrow> update_parts (get_json req) \<noteq> [])"
proof (intro conjI impI)
  show "fst (put_review req db i) \<noteq> Inr (error_body ''No valid fields provided to update'', 400)"
    by (auto simp: put_review_def Let_def update_parts_def error_bodies_distinct
             split: sum.splits option.splits)
next
  assume "\<not> has_key (get_json req) ''stars''"
  then show "put_review req db i = (Inr (ERROR_BAD_REQUEST, 400), db)"
    by (simp add: put_review_def)
next
  assume "has_key (get_json req) ''stars''"
  then show "update_parts (get_json req) \<noteq> []"
    by (simp add: update_parts_def)
qed

text \<open>A body without \<^verbatim>\<open>stars\<close> and a body with it.\<close>

theorem put_review_no_valid_fields_unreachable_witness:
  "\<not> has_key (get_json ex_req) ''stars''
   \<and> put_review ex_req ex_db 1 = (Inr (ERROR_BAD_REQUEST, 400), ex_db)
   \<and> has_key (get_json (ex_req\<lparr>get_json := [(''stars'', JInt 4)]\<rparr>)) ''stars''
   \<and> update_parts (get_json (ex_req\<lparr>get_json := [(''stars'', JInt 4)]\<rparr>)) \<noteq> []
   \<and> fst (put_review (ex_req\<lparr>get_json := [(''stars'', JInt 4)]\<rparr>) ex_db 1)
       \<noteq> Inr (error_body ''No valid fields provided to update'', 400)"
proof -
  have a: "\<not> has_key (get_json ex_req) ''stars''"
    by (simp add: has_key_def ex_defs)
  have b: "has_key (get_json (ex_req\<lparr>get_json := [(''stars'', JInt 4)]\<rparr>)) ''stars''"
    by (simp add: has_key_def)
  show ?thesis
    using a b put_review_no_valid_fields_unreachable [of ex_req ex_db 1]
      put_review_no_valid_fields_unreachable [of "ex_req\<lparr>get_json := [(''stars'', JInt 4)]\<rparr>" ex_db 1]
    by blast
qed

section \<open>The two listings\<close>

text \<open>Evaluating \<^verbatim>\<open>str\<close> and \<^verbatim>\<open>int\<close> on concrete values.\<close>


lemma nat_digits_small: "n < 10 \<Longrightarrow> nat_digits n = [digit_char n]"
  by (simp add: nat_digits.simps)

lemma nat_digits_large: "10 \<le> n \<Longrightarrow> nat_digits n = nat_digits (n div 10) @ [digit_char (n mod 10)]"
  by (subst nat_digits.simps) simp

lemmas str_int_eval = str_int_def nat_digits_small nat_digits_large digit_char_def


lemmas py_int_eval = py_int_def strip_def is_space_def split_sign_def is_digit_def Let_def


lemma get_reviews_page:
  assumes "args_get_int req ''offset'' 0 = offset" and "args_get_int req ''limit'' 3 = limit"
    and "0 \<le> offset" and "- 1 \<le> limit"
  shows "get_reviews req db =
     (let rows = take (nat (limit + 1)) (drop (nat offset) (reviews db))
      in Inr (JObj (response_data req (map (reviews_entry req) (slice_to rows limit))
                      (length rows) offset limit), 200))"
  using assms by (simp add: get_reviews_def select_limit_offset_def Let_def)

lemma get_businesses_page:
  assumes "args_get_int req ''offset'' 0 = offset" and "args_get_int req ''limit'' 3 = limit"
    and "0 \<le> offset" and "- 1 \<le> limit"
  shows "get_businesses req db =
     (let rows = take (nat (limit + 1)) (drop (nat offset) (businesses db))
      in and_then (businesses_entries req (slice_to rows limit)) (\<lambda>entries.
           Inr (JObj (response_data req entries (length rows) offset limit), 200)))"
  using assms by (simp add: get_businesses_def select_limit_offset_def Let_def)

lemma businesses_entry_cases:
  "businesses_entry req b = (case py_int (b_zip_code b) of
       None \<Rightarrow> Inl ValueError
     | Some z \<Rightarrow> Inr (obj [(''id'', JInt (b_id b)), (''owner_id'', JInt (b_owner_id b)),
                           (''name'', JStr (b_name b)), (''street_address'', JStr (b_street_address b)),
                           (''city'', JStr (b_city b)), (''state'', JStr (b_state b)),
                           (''zip_code'', JInt z),
                           (''self'', JStr (url_root req @ ''businesses/'' @ str_int (b_id b)))]))"
  by (simp add: businesses_entry_def business_asdict_def getitem_def int_of_jval_def dict_get_def
        Let_def split: option.splits)

lemma businesses_entries_ok:
  "list_all (\<lambda>b. py_int (b_zip_code b) \<noteq> None) rows \<Longrightarrow>
     \<exists>entries. businesses_entries req rows = Inr entries
        \<and> map (businesses_entry req) rows = map Inr entries"
proof (induction rows)
  case Nil
  then show ?case by simp
next
  case (Cons b rows)
  then obtain z where z: "py_int (b_zip_code b) = Some z" by auto
  from Cons obtain entries where e: "businesses_entries req rows = Inr entries"
    "map (businesses_entry req) rows = map Inr entries" by auto
  obtain x where x: "businesses_entry req b = Inr x"
    using z by (simp add: businesses_entry_cases)
  show ?case using e x by simp
qed

lemma businesses_entries_fail:
  "\<not> list_all (\<lambda>b. py_int (b_zip_code b) \<noteq> None) rows \<Longrightarrow>
     businesses_entries req rows = Inl ValueError"
proof (induction rows)
  case Nil
  then show ?case by simp
next
  case (Cons b rows)
  show ?case
  proof (cases "py_int (b_zip_code b)")
    case None
    then show ?thesis by (simp add: businesses_entry_cases)
  next
    case (Some z)
    with Cons have "businesses_entries req rows = Inl ValueError" by simp
    with Some show ?thesis by (simp add: businesses_entry_cases)
  qed
qed



lemma reviews_entry_dict:
  "reviews_entry req r =
     obj [(''id'', JInt (r_id r)), (''user_id'', JInt (r_user_id r)),
          (''business_id'', JInt (r_business_id r)), (''stars'', nullable_int (r_stars r)),
          (''review_text'', nullable_text (r_review_text r)),
          (''self'', JStr (url_root req @ ''reviews/'' @ str_int (r_id r)))]"
  by (simp add: reviews_entry_def review_asdict_def dict_get_def Let_def)

text \<open>
  C1, as the code has it. For a listing request whose \<^verbatim>\<open>offset\<close> (default 0) and
  \<^verbatim>\<open>limit\<close> (default 3) are not negative, the handler asks the store for
  \<open>limit + 1\<close> rows at the offset. \<^verbatim>\<open>GET /reviews\<close> answers 200 with the first
  \<open>limit\<close> of them as \<^verbatim>\<open>entries\<close>, so at most \<open>limit\<close> entries, and with a
  \<^verbatim>\<open>next\<close> URL exactly when the store gave more than \<open>limit\<close> rows; the URL
  carries \<open>offset + limit\<close> and the same limit. \<^verbatim>\<open>GET /businesses\<close> does the same
  when the \<open>zip_code\<close> of each of those first \<open>limit\<close> rows is text that
  \<^verbatim>\<open>int()\<close> accepts; otherwise \<^verbatim>\<open>int()\<close> raises \<^verbatim>\<open>ValueError\<close>, which the
  handler does not catch.
\<close>

theorem listing_pagination:
  assumes "args_get_int req ''offset'' 0 = offset" and "args_get_int req ''limit'' 3 = limit"
    and "0 \<le> offset" and "0 \<le> limit"
  shows "(let rows = take (nat (limit + 1)) (drop (nat offset) (reviews db));
              entries = map (reviews_entry req) (take (nat limit) rows)
          in select_limit_offset (reviews db) (limit + 1) offset = Inr rows
             \<and> length entries \<le> nat limit
             \<and> get_reviews req db =
                 Inr (JObj ((''entries'', JList entries) #
                        (if nat limit < length rows
                         then [(''next'', JVal (JStr (base_url req @ ''?offset='' @ str_int (offset + limit)
                                                        @ ''&limit='' @ str_int limit)))]
                         else [])), 200))
       \<and> (let rows = take (nat (limit + 1)) (drop (nat offset) (businesses db));
               shown = take (nat limit) rows
           in select_limit_offset (businesses db) (limit + 1) offset = Inr rows
              \<and> (if list_all (\<lambda>b. py_int (b_zip_code b) \<noteq> None) shown
                  then \<exists>entries. map (businesses_entry req) shown = map Inr entries
                         \<and> length entries \<le> nat limit
                         \<and> get_businesses req db =
                             Inr (JObj ((''entries'', JList entries) #
                                    (if nat limit < length rows
                                     then [(''next'', JVal (JStr (base_url req @ ''?offset=''
                                                @ str_int (offset + limit) @ ''&limit='' @ str_int limit)))]
                                     else [])), 200)
                  else get_businesses req db = Inl ValueError))"
proof -
  have lim: "- 1 \<le> limit" using assms(4) by simp
  have sel: "\<And>rows :: 'a list. select_limit_offset rows (limit + 1) offset
               = Inr (take (nat (limit + 1)) (drop (nat offset) rows))"
    using assms(3,4) by (simp add: select_limit_offset_def)
  have more: "\<And>n. (limit < int n) = (nat limit < n)"
    using assms(4) by linarith
  have r: "get_reviews req db =
      Inr (JObj ((''entries'', JList (map (reviews_entry req)
                    (take (nat limit) (take (nat (limit + 1)) (drop (nat offset) (reviews db)))))) #
             (if nat limit < length (take (nat (limit + 1)) (drop (nat offset) (reviews db)))
              then [(''next'', JVal (JStr (base_url req @ ''?offset='' @ str_int (offset + limit)
                                             @ ''&limit='' @ str_int limit)))]
              else [])), 200)"
    using assms(4)
    by (simp only: get_reviews_page [OF assms(1,2,3) lim] Let_def response_data_def slice_to_def more)
       simp
  have b: "get_businesses req db =
      and_then (businesses_entries req (take (nat limit) (take (nat (limit + 1)) (drop (nat offset) (businesses db)))))
        (\<lambda>entries. Inr (JObj ((''entries'', JList entries) #
             (if nat limit < length (take (nat (limit + 1)) (drop (nat offset) (businesses db)))
              then [(''next'', JVal (JStr (base_url req @ ''?offset='' @ str_int (offset + limit)
                                             @ ''&limit='' @ str_int limit)))]
              else [])), 200))"
    using assms(4)
    by (simp only: get_businesses_page [OF assms(1,2,3) lim] Let_def response_data_def slice_to_def more)
       simp
  let ?shown = "take (nat limit) (take (nat (limit + 1)) (drop (nat offset) (businesses db)))"
  have bs: "if list_all (\<lambda>b. py_int (b_zip_code b) \<noteq> None) ?shown
      then \<exists>entries. map (businesses_entry req) ?shown = map Inr entries
             \<and> length entries \<le> nat limit
             \<and> get_businesses req db =
                 Inr (JObj ((''entries'', JList entries) #
                   (if nat limit < length (take (nat (limit + 1)) (drop (nat offset) (businesses db)))
                    then [(''next'', JVal (JStr (base_url req @ ''?offset=''
                               @ str_int (offset + limit) @ ''&limit='' @ str_int limit)))]
                    else [])), 200)
      else get_businesses req db = Inl ValueError"
  proof (cases "list_all (\<lambda>b. py_int (b_zip_code b) \<noteq> None) ?shown")
    case True
    from businesses_entries_ok [OF True, of req] obtain entries where
      e: "businesses_entries req ?shown = Inr entries"
         "map (businesses_entry req) ?shown = map Inr entries" by blast
    from e(2) have "length entries = length ?shown"
      by (metis length_map)
    then have "length entries \<le> nat limit" by simp
    with True e show ?thesis by (auto simp: b)
  next
    case False
    from businesses_entries_fail [OF False, of req] False show ?thesis by (simp add: b)
  qed
  show ?thesis
    unfolding Let_def
    apply (intro conjI)
        apply (rule sel)
       apply simp
      apply (rule r)
     apply (rule sel)
    apply (rule bs)
    done
qed


text \<open>On the example store: with \<^verbatim>\<open>limit=0\<close> no entry and a \<^verbatim>\<open>next\<close> URL, with
  the defaults the one row and no \<^verbatim>\<open>next\<close>.\<close>

theorem listing_pagination_witness:
  "args_get_int (ex_req\<lparr>args := [(''limit'', ''0'')]\<rparr>) ''offset'' 0 = 0
   \<and> args_get_int (ex_req\<lparr>args := [(''limit'', ''0'')]\<rparr>) ''limit'' 3 = 0
   \<and> get_reviews (ex_req\<lparr>args := [(''limit'', ''0'')]\<rparr>) ex_db =
        Inr (JObj [(''entries'', JList []),
                   (''next'', JVal (JStr ''http://api/r?offset=0&limit=0''))], 200)
   \<and> get_businesses (ex_req\<lparr>args := [(''limit'', ''0'')]\<rparr>) ex_db =
        Inr (JObj [(''entries'', JList []),
                   (''next'', JVal (JStr ''http://api/r?offset=0&limit=0''))], 200)
   \<and> args_get_int ex_req ''offset'' 0 = 0
   \<and> args_get_int ex_req ''limit'' 3 = 3
   \<and> get_reviews ex_req ex_db = Inr (JObj [(''entries'', JList [reviews_entry ex_req ex_review])], 200)
   \<and> businesses_entry ex_req ex_business =
        Inr (obj [(''id'', JInt 1), (''owner_id'', JInt 7), (''name'', JStr ''Cafe''),
                  (''street_address'', JStr ''1 Main St''), (''city'', JStr ''Bend''),
                  (''state'', JStr ''OR''), (''zip_code'', JInt 97330),
                  (''self'', JStr ''http://api/businesses/1'')])
   \<and> get_businesses ex_req ex_db =
        Inr (JObj [(''entries'', JList
               [obj [(''id'', JInt 1), (''owner_id'', JInt 7), (''name'', JStr ''Cafe''),
                     (''street_address'', JStr ''1 Main St''), (''city'', JStr ''Bend''),
                     (''state'', JStr ''OR''), (''zip_code'', JInt 97330),
                     (''self'', JStr ''http://api/businesses/1'')]])], 200)"
proof -
  let ?R = "ex_req\<lparr>args := [(''limit'', ''0'')]\<rparr>"
  have a1: "args_get_int ?R ''offset'' 0 = 0"
    by (simp add: args_get_int_def)
  have a2: "args_get_int ?R ''limit'' 3 = 0"
    by (simp add: args_get_int_def py_int_eval)
  have b1: "args_get_int ex_req ''offset'' 0 = 0"
    by (simp add: args_get_int_def ex_defs)
  have b2: "args_get_int ex_req ''limit'' 3 = 3"
    by (simp add: args_get_int_def ex_defs)
  have z: "py_int ''97330'' = Some 97330"
    by (simp add: py_int_eval)
  have e: "businesses_entry ex_req ex_business =
        Inr (obj [(''id'', JInt 1), (''owner_id'', JInt 7), (''name'', JStr ''Cafe''),
                  (''street_address'', JStr ''1 Main St''), (''city'', JStr ''Bend''),
                  (''state'', JStr ''OR''), (''zip_code'', JInt 97330),
                  (''self'', JStr ''http://api/businesses/1'')])"
    by (simp add: businesses_entry_cases z ex_defs str_int_eval)
  have c: "get_reviews ?R ex_db =
        Inr (JObj [(''entries'', JList []),
                   (''next'', JVal (JStr ''http://api/r?offset=0&limit=0''))], 200)
      \<and> get_businesses ?R ex_db =
        Inr (JObj [(''entries'', JList []),
                   (''next'', JVal (JStr ''http://api/r?offset=0&limit=0''))], 200)"
    using listing_pagination [OF a1 a2, of ex_db]
    by (simp add: Let_def ex_defs str_int_eval)
  have d: "get_reviews ex_req ex_db = Inr (JObj [(''entries'', JList [reviews_entry ex_req ex_review])], 200)
      \<and> get_businesses ex_req ex_db =
        Inr (JObj [(''entries'', JList
               [obj [(''id'', JInt 1), (''owner_id'', JInt 7), (''name'', JStr ''Cafe''),
                     (''street_address'', JStr ''1 Main St''), (''city'', JStr ''Bend''),
                     (''state'', JStr ''OR''), (''zip_code'', JInt 97330),
                     (''self'', JStr ''http://api/businesses/1'')]])], 200)"
    using listing_pagination [OF b1 b2, of ex_db] e
    by (auto simp: Let_def ex_db_def z ex_business_def)
  show ?thesis using a1 a2 b1 b2 c d e by simp
qed

text \<open>The claim without the condition on \<open>zip_code\<close> fails: \<^verbatim>\<open>POST /businesses\<close>
  stores the zip code \<^verbatim>\<open>"abcde"\<close> (201), after which \<^verbatim>\<open>GET /businesses\<close> with the
  default offset and limit raises instead of listing the row.\<close>

theorem listing_pagination_counterexample:
  "fst (post_businesses
         (ex_req\<lparr>get_json := [(''owner_id'', JInt 7), (''name'', JStr ''Cafe''),
                               (''street_address'', JStr ''1 Main St''), (''city'', JStr ''Bend''),
                               (''state'', JStr ''OR''), (''zip_code'', JStr ''abcde'')]\<rparr>) empty_db)
     = Inr (obj [(''id'', JInt 1), (''owner_id'', JInt 7), (''name'', JStr ''Cafe''),
                 (''street_address'', JStr ''1 Main St''), (''city'', JStr ''Bend''),
                 (''state'', JStr ''OR''), (''zip_code'', JStr ''abcde''),
                 (''self'', JStr ''http://api/r/1'')], 201)
   \<and> args_get_int ex_req ''offset'' 0 = 0
   \<and> args_get_int ex_req ''limit'' 3 = 3
   \<and> get_businesses ex_req
        (snd (post_businesses
          (ex_req\<lparr>get_json := [(''owner_id'', JInt 7), (''name'', JStr ''Cafe''),
                                (''street_address'', JStr ''1 Main St''), (''city'', JStr ''Bend''),
                                (''state'', JStr ''OR''), (''zip_code'', JStr ''abcde'')]\<rparr>) empty_db))
     = Inl ValueError"
  by (simp add: post_businesses_def post_businesses_try_def getitem_def insert_business_def
        business_columns_def not_null_def int_column_def int_in_range_def varchar_column_def varchar_fits_def in_int_range_def
        empty_db_def ex_req_def str_int_eval
        get_businesses_def args_get_int_def select_limit_offset_def slice_to_def
        businesses_entry_cases py_int_eval)


text \<open>
  C10, as the code has it. For a listing request with \<^verbatim>\<open>limit=-1\<close> and an offset that
  is not negative, the query is issued with \<^verbatim>\<open>LIMIT 0\<close> and gives no row, so for every
  store the answer is 200 with an empty \<^verbatim>\<open>entries\<close> list and a \<^verbatim>\<open>next\<close> URL whose
  offset is \<open>offset - 1\<close> and whose limit is \<open>-1\<close>.
\<close>

theorem listing_limit_minus_one:
  assumes "args_get_int req ''offset'' 0 = offset" and "args_get_int req ''limit'' 3 = - 1"
    and "0 \<le> offset"
  shows "select_limit_offset (businesses db) (- 1 + 1) offset = Inr []
     \<and> select_limit_offset (reviews db) (- 1 + 1) offset = Inr []
     \<and> get_businesses req db =
         Inr (JObj [(''entries'', JList []),
                    (''next'', JVal (JStr (base_url req @ ''?offset='' @ str_int (offset - 1)
                                             @ ''&limit=-1'')))], 200)
     \<and> get_reviews req db =
         Inr (JObj [(''entries'', JList []),
                    (''next'', JVal (JStr (base_url req @ ''?offset='' @ str_int (offset - 1)
                                             @ ''&limit=-1'')))], 200)"
proof -
  have m: "str_int (- 1) = ''-1''"
    by (simp add: str_int_eval)
  have lim: "- 1 \<le> (- 1 :: int)" by simp
  have b: "get_businesses req db =
         Inr (JObj [(''entries'', JList []),
                    (''next'', JVal (JStr (base_url req @ ''?offset='' @ str_int (offset - 1)
                                             @ ''&limit=-1'')))], 200)"
    by (simp add: get_businesses_page [OF assms(1,2,3) lim] slice_to_def response_data_def m)
  have r: "get_reviews req db =
         Inr (JObj [(''entries'', JList []),
                    (''next'', JVal (JStr (base_url req @ ''?offset='' @ str_int (offset - 1)
                                             @ ''&limit=-1'')))], 200)"
    by (simp add: get_reviews_page [OF assms(1,2,3) lim] slice_to_def response_data_def m)
  show ?thesis
    using assms(3) b r by (simp add: select_limit_offset_def)
qed

text \<open>With \<^verbatim>\<open>limit=-1\<close> and the default offset, on the example store.\<close>

theorem listing_limit_minus_one_witness:
  "args_get_int (ex_req\<lparr>args := [(''limit'', ''-1'')]\<rparr>) ''offset'' 0 = 0
   \<and> args_get_int (ex_req\<lparr>args := [(''limit'', ''-1'')]\<rparr>) ''limit'' 3 = - 1
   \<and> get_businesses (ex_req\<lparr>args := [(''limit'', ''-1'')]\<rparr>) ex_db =
        Inr (JObj [(''entries'', JList []),
                   (''next'', JVal (JStr ''http://api/r?offset=-1&limit=-1''))], 200)
   \<and> get_reviews (ex_req\<lparr>args := [(''limit'', ''-1'')]\<rparr>) ex_db =
        Inr (JObj [(''entries'', JList []),
                   (''next'', JVal (JStr ''http://api/r?offset=-1&limit=-1''))], 200)"
proof -
  let ?R = "ex_req\<lparr>args := [(''limit'', ''-1'')]\<rparr>"
  have a1: "args_get_int ?R ''offset'' 0 = 0"
    by (simp add: args_get_int_def)
  have a2: "args_get_int ?R ''limit'' 3 = - 1"
    by (simp add: args_get_int_def py_int_eval)
  show ?thesis
    using a1 a2 listing_limit_minus_one [OF a1 a2, of ex_db]
    by (simp add: ex_req_def str_int_eval)
qed

text \<open>The claim for any offset fails: with \<^verbatim>\<open>offset=-1\<close> the store rejects the
  query, and neither listing handler catches that.\<close>

theorem listing_limit_minus_one_counterexample:
  "args_get_int (ex_req\<lparr>args := [(''offset'', ''-1''), (''limit'', ''-1'')]\<rparr>) ''offset'' 0 = - 1
   \<and> args_get_int (ex_req\<lparr>args := [(''offset'', ''-1''), (''limit'', ''-1'')]\<rparr>) ''limit'' 3 = - 1
   \<and> get_businesses (ex_req\<lparr>args := [(''offset'', ''-1''), (''limit'', ''-1'')]\<rparr>) ex_db = Inl DBError
   \<and> get_reviews (ex_req\<lparr>args := [(''offset'', ''-1''), (''limit'', ''-1'')]\<rparr>) ex_db = Inl DBError"
  by (simp add: get_businesses_def get_reviews_def args_get_int_def py_int_eval
        select_limit_offset_def)

section \<open>The two shapes of a review\<close>

lemma set_slice_to: "set (slice_to xs lim) \<subseteq> set xs"
  by (simp add: slice_to_def set_take_subset)

lemma get_review_dict:
  assumes "distinct (map r_id (reviews db))" and "r \<in> set (reviews db)"
  shows "get_review req db (r_id r) =
     Inr (obj [(''id'', JInt (r_id r)), (''user_id'', JInt (r_user_id r)),
               (''business'', JStr (host_url req @ ''businesses/'' @ str_int (r_business_id r))),
               (''stars'', nullable_int (r_stars r)),
               (''review_text'', nullable_text (r_review_text r)),
               (''self'', JStr (host_url req @ ''reviews/'' @ str_int (r_id r)))], 200)"
proof -
  have "select_review db (r_id r) = [r]"
    unfolding select_review_def using assms by (rule filter_unique_key)
  then show ?thesis
    by (simp add: get_review_def review_response_def review_asdict_def dict_get_def Let_def)
qed

text \<open>
  C7. Each entry of \<^verbatim>\<open>GET /reviews\<close> is the row as it is, with its raw
  \<^verbatim>\<open>business_id\<close>, and a \<^verbatim>\<open>self\<close> URL; it has no \<^verbatim>\<open>business\<close> key. Whenever
  the handler answers, its entries are such entries of rows of the table.
  \<^verbatim>\<open>GET /reviews/{id}\<close> of an existing review answers with a representation that has
  a \<^verbatim>\<open>business\<close> URL and no \<^verbatim>\<open>business_id\<close> key.
\<close>

theorem review_shapes:
  "reviews_entry req r =
     obj [(''id'', JInt (r_id r)), (''user_id'', JInt (r_user_id r)),
          (''business_id'', JInt (r_business_id r)), (''stars'', nullable_int (r_stars r)),
          (''review_text'', nullable_text (r_review_text r)),
          (''self'', JStr (url_root req @ ''reviews/'' @ str_int (r_id r)))]
   \<and> (get_reviews req db = Inr (body, status) \<longrightarrow>
        (\<exists>rows more. set rows \<subseteq> set (reviews db)
            \<and> body = JObj ((''entries'', JList (map (reviews_entry req) rows)) # more)
            \<and> map_of more ''entries'' = None))
   \<and> (distinct (map r_id (reviews db)) \<and> r \<in> set (reviews db) \<longrightarrow>
        get_review req db (r_id r) =
          Inr (obj [(''id'', JInt (r_id r)), (''user_id'', JInt (r_user_id r)),
                    (''business'', JStr (host_url req @ ''businesses/'' @ str_int (r_business_id r))),
                    (''stars'', nullable_int (r_stars r)),
                    (''review_text'', nullable_text (r_review_text r)),
                    (''self'', JStr (host_url req @ ''reviews/'' @ str_int (r_id r)))], 200))"
proof (intro conjI impI)
  show "reviews_entry req r =
     obj [(''id'', JInt (r_id r)), (''user_id'', JInt (r_user_id r)),
          (''business_id'', JInt (r_business_id r)), (''stars'', nullable_int (r_stars r)),
          (''review_text'', nullable_text (r_review_text r)),
          (''self'', JStr (url_root req @ ''reviews/'' @ str_int (r_id r)))]"
    by (rule reviews_entry_dict)
next
  assume g: "get_reviews req db = Inr (body, status)"
  let ?offset = "args_get_int req ''offset'' 0" and ?limit = "args_get_int req ''limit'' 3"
  from g obtain fetched where f: "select_limit_offset (reviews db) (?limit + 1) ?offset = Inr fetched"
    by (cases "select_limit_offset (reviews db) (?limit + 1) ?offset")
       (simp_all add: get_reviews_def Let_def)
  then have sub: "set fetched \<subseteq> set (reviews db)"
    by (auto simp: select_limit_offset_def split: if_splits dest: in_set_takeD in_set_dropD)
  have "set (slice_to fetched ?limit) \<subseteq> set (reviews db)"
    using set_slice_to sub by (rule subset_trans)
  moreover from g f have "\<exists>more. body = JObj ((''entries'',
      JList (map (reviews_entry req) (slice_to fetched ?limit))) # more) \<and> map_of more ''entries'' = None"
    by (auto simp: get_reviews_def Let_def response_data_def split: if_splits)
  ultimately show "\<exists>rows more. set rows \<subseteq> set (reviews db)
            \<and> body = JObj ((''entries'', JList (map (reviews_entry req) rows)) # more)
            \<and> map_of more ''entries'' = None"
    by blast
next
  assume "distinct (map r_id (reviews db)) \<and> r \<in> set (reviews db)"
  then show "get_review req db (r_id r) =
          Inr (obj [(''id'', JInt (r_id r)), (''user_id'', JInt (r_user_id r)),
                    (''business'', JStr (host_url req @ ''businesses/'' @ str_int (r_business_id r))),
                    (''stars'', nullable_int (r_stars r)),
                    (''review_text'', nullable_text (r_review_text r)),
                    (''self'', JStr (host_url req @ ''reviews/'' @ str_int (r_id r)))], 200)"
    by (simp add: get_review_dict)
qed

text \<open>The review of the example store, listed and fetched.\<close>

theorem review_shapes_witness:
  "get_reviews ex_req ex_db =
     Inr (JObj [(''entries'', JList
            [obj [(''id'', JInt 1), (''user_id'', JInt 5), (''business_id'', JInt 1),
                  (''stars'', JInt 3), (''review_text'', JStr ''good''),
                  (''self'', JStr ''http://api/reviews/1'')]])], 200)
   \<and> distinct (map r_id (reviews ex_db)) \<and> ex_review \<in> set (reviews ex_db)
   \<and> get_review ex_req ex_db 1 =
     Inr (obj [(''id'', JInt 1), (''user_id'', JInt 5),
               (''business'', JStr ''http://api/businesses/1''),
               (''stars'', JInt 3), (''review_text'', JStr ''good''),
               (''self'', JStr ''http://api/reviews/1'')], 200)"
proof -
  have g: "get_reviews ex_req ex_db = Inr (JObj [(''entries'', JList [reviews_entry ex_req ex_review])], 200)"
    by (simp add: get_reviews_def args_get_int_def select_limit_offset_def slice_to_def
          response_data_def ex_db_def ex_req_def)
  have d: "distinct (map r_id (reviews ex_db)) \<and> ex_review \<in> set (reviews ex_db)"
    by (simp add: ex_db_def)
  show ?thesis
    using g d review_shapes [of ex_req ex_review ex_db "JObj [(''entries'', JList [reviews_entry ex_req ex_review])]" 200]
    by (simp add: ex_review_def ex_req_def nullable_int_def nullable_text_def str_int_eval)
qed


section \<open>Creating a review\<close>

lemma business_check_iff:
  "business_check db b = (\<exists>x\<in>set (businesses db). sql_eq_int (b_id x) b)"
  by (auto simp: business_check_def filter_empty_conv)

lemma existing_review_iff:
  "existing_review db u b =
     (\<exists>r\<in>set (reviews db). sql_eq_int (r_user_id r) u \<and> sql_eq_int (r_business_id r) b)"
  by (auto simp: existing_review_def filter_empty_conv)

lemma post_review_missing:
  assumes "\<not> (has_key (get_json req) ''user_id'' \<and> has_key (get_json req) ''business_id''
              \<and> has_key (get_json req) ''stars'')"
  shows "post_review req db = (Inr (ERROR_BAD_REQUEST, 400), db)"
  using assms by (auto simp: post_review_def required_fields_def Let_def)

text \<open>The store raises one kind of error.\<close>

lemma int_in_range_error: "int_in_range i = Inl e \<Longrightarrow> e = DBError"
  by (simp add: int_in_range_def split: if_splits)

lemma int_column_error: "int_column v = Inl e \<Longrightarrow> e = DBError"
  by (cases v)
     (auto simp: int_column_def dest: int_in_range_error split: prod.splits option.splits if_splits)

lemma stars_column_error: "stars_column v = Inl e \<Longrightarrow> e = DBError"
  by (auto simp: stars_column_def dest: int_column_error split: sum.splits option.splits if_splits)

lemma varchar_column_error: "varchar_column n v = Inl e \<Longrightarrow> e = DBError"
  by (cases v) (auto simp: varchar_column_def varchar_fits_def split: if_splits)

lemma not_null_error:
  "not_null c = Inl e \<Longrightarrow> (\<And>e'. c = Inl e' \<Longrightarrow> e' = DBError) \<Longrightarrow> e = DBError"
  by (auto simp: not_null_def split: sum.splits option.splits)

lemma insert_review_error: "insert_review db u b s t = Inl e \<Longrightarrow> e = DBError"
  by (auto simp: insert_review_def and_then_def
           dest: stars_column_error varchar_column_error
           dest!: not_null_error [OF _ int_column_error]
           split: sum.splits)

lemma stars_column_int:
  "stars_column (JInt n) = (if 0 \<le> n \<and> n \<le> 5 then Inr (Some n) else Inl DBError)"
  by (auto simp: stars_column_def int_column_def int_in_range_def in_int_range_def)

lemma post_review_cases:
  assumes "map_of (get_json req) ''user_id'' = Some u"
    and "map_of (get_json req) ''business_id'' = Some b"
    and "map_of (get_json req) ''stars'' = Some s"
  shows "post_review req db =
     (if \<not> business_check db b then (Inr (ERROR_NOT_FOUND, 404), db)
      else if existing_review db u b then (Inr (ERROR_CONFLICT, 409), db)
      else (case insert_review db u b s (dict_get (get_json req) ''review_text'' (JStr '''')) of
          Inl e \<Rightarrow> (Inr (error_body ''Unable to create review'', 500), db)
        | Inr (db', review_id) \<Rightarrow>
            (Inr (obj [(''id'', JInt review_id), (''user_id'', u),
                       (''business'', JStr (host_url req @ ''businesses/'' @ py_str b)),
                       (''stars'', s),
                       (''review_text'', dict_get (get_json req) ''review_text'' (JStr '''')),
                       (''self'', JStr (base_url req @ ''/'' @ str_int review_id))], 201), db')))"
proof -
  have e: "\<And>e. insert_review db u b s (dict_get (get_json req) ''review_text'' (JStr '''')) = Inl e
      \<Longrightarrow> e = DBError"
    by (rule insert_review_error)
  show ?thesis
    using assms e
    by (auto simp: post_review_def post_review_try_def required_fields_def has_key_def getitem_def
          handle_exn_def Let_def split: sum.splits)
qed

lemma insert_review_accepts:
  assumes "in_int_range uid" and "in_int_range bid" and "0 \<le> st" and "st \<le> 5"
    and "length txt \<le> 1000"
  shows "insert_review db (JInt uid) (JInt bid) (JInt st) (JStr txt) =
     Inr (db\<lparr>reviews := reviews db @
               [\<lparr>r_id = reviews_seq db, r_user_id = uid, r_business_id = bid,
                 r_stars = Some st, r_review_text = Some txt\<rparr>],
             reviews_seq := reviews_seq db + 1\<rparr>, reviews_seq db)"
  using assms
  by (simp add: insert_review_def not_null_def int_column_def int_in_range_def stars_column_def varchar_column_def varchar_fits_def
        in_int_range_def)

lemma insert_review_rejects_stars:
  assumes "st < 0 \<or> 5 < st"
  shows "insert_review db u b (JInt st) t = Inl DBError"
proof -
  have "stars_column (JInt st) = Inl DBError"
    using assms by (auto simp: stars_column_int)
  then have "\<exists>e. insert_review db u b (JInt st) t = Inl e"
    by (cases "not_null (int_column u)"; cases "not_null (int_column b)")
       (simp_all add: insert_review_def and_then_def)
  then show ?thesis
    using insert_review_error by blast
qed

text \<open>
  C4, as the code has it. \<^verbatim>\<open>POST /reviews\<close> decides in this order. A body lacking
  \<^verbatim>\<open>user_id\<close>, \<^verbatim>\<open>business_id\<close> or \<^verbatim>\<open>stars\<close> is answered 400. Otherwise, no business
  row with the given \<^verbatim>\<open>business_id\<close> is answered 404 (business not found). Otherwise, a
  review for the same user and business is answered 409. Otherwise the row is inserted,
  when the store takes it, and the answer is 201 with a body that has a \<^verbatim>\<open>business\<close> URL
  and no \<^verbatim>\<open>business_id\<close>, a \<^verbatim>\<open>self\<close> URL, and a \<^verbatim>\<open>review_text\<close> that is the empty
  string when the body has none; when the store rejects the row, as it does for stars
  outside 0 to 5, the answer is 500 and nothing is inserted. The store takes integer ids
  in range, stars from 0 to 5 and a text of at most 1000 characters.
\<close>

theorem post_review_precedence:
  "(\<not> (has_key (get_json req) ''user_id'' \<and> has_key (get_json req) ''business_id''
         \<and> has_key (get_json req) ''stars'') \<longrightarrow>
      post_review req db = (Inr (ERROR_BAD_REQUEST, 400), db))
   \<and> (map_of (get_json req) ''user_id'' = Some u \<and> map_of (get_json req) ''business_id'' = Some b
        \<and> map_of (get_json req) ''stars'' = Some s \<longrightarrow>
       (if \<not> (\<exists>x\<in>set (businesses db). sql_eq_int (b_id x) b)
        then post_review req db = (Inr (ERROR_NOT_FOUND, 404), db)
        else if \<exists>r\<in>set (reviews db). sql_eq_int (r_user_id r) u \<and> sql_eq_int (r_business_id r) b
        then post_review req db = (Inr (ERROR_CONFLICT, 409), db)
        else (case insert_review db u b s (dict_get (get_json req) ''review_text'' (JStr '''')) of
            Inl e \<Rightarrow> post_review req db = (Inr (error_body ''Unable to create review'', 500), db)
          | Inr (db', review_id) \<Rightarrow>
              post_review req db =
                (Inr (obj [(''id'', JInt review_id), (''user_id'', u),
                           (''business'', JStr (host_url req @ ''businesses/'' @ py_str b)),
                           (''stars'', s),
                           (''review_text'', dict_get (get_json req) ''review_text'' (JStr '''')),
                           (''self'', JStr (base_url req @ ''/'' @ str_int review_id))], 201), db'))))
   \<and> (in_int_range uid \<and> in_int_range bid \<and> 0 \<le> st \<and> st \<le> 5 \<and> length txt \<le> 1000 \<longrightarrow>
        insert_review db (JInt uid) (JInt bid) (JInt st) (JStr txt) =
          Inr (db\<lparr>reviews := reviews db @
                    [\<lparr>r_id = reviews_seq db, r_user_id = uid, r_business_id = bid,
                      r_stars = Some st, r_review_text = Some txt\<rparr>],
                  reviews_seq := reviews_seq db + 1\<rparr>, reviews_seq db))
   \<and> (n < 0 \<or> 5 < n \<longrightarrow> insert_review db u b (JInt n) t = Inl DBError)"
proof (intro conjI impI)
  assume "\<not> (has_key (get_json req) ''user_id'' \<and> has_key (get_json req) ''business_id''
         \<and> has_key (get_json req) ''stars'')"
  then show "post_review req db = (Inr (ERROR_BAD_REQUEST, 400), db)"
    by (rule post_review_missing)
next
  assume "map_of (get_json req) ''user_id'' = Some u \<and> map_of (get_json req) ''business_id'' = Some b
        \<and> map_of (get_json req) ''stars'' = Some s"
  then have c: "map_of (get_json req) ''user_id'' = Some u"
    "map_of (get_json req) ''business_id'' = Some b" "map_of (get_json req) ''stars'' = Some s"
    by simp_all
  show "if \<not> (\<exists>x\<in>set (businesses db). sql_eq_int (b_id x) b)
        then post_review req db = (Inr (ERROR_NOT_FOUND, 404), db)
        else if \<exists>r\<in>set (reviews db). sql_eq_int (r_user_id r) u \<and> sql_eq_int (r_business_id r) b
        then post_review req db = (Inr (ERROR_CONFLICT, 409), db)
        else (case insert_review db u b s (dict_get (get_json req) ''review_text'' (JStr '''')) of
            Inl e \<Rightarrow> post_review req db = (Inr (error_body ''Unable to create review'', 500), db)
          | Inr (db', review_id) \<Rightarrow>
              post_review req db =
                (Inr (obj [(''id'', JInt review_id), (''user_id'', u),
                           (''business'', JStr (host_url req @ ''businesses/'' @ py_str b)),
                           (''stars'', s),
                           (''review_text'', dict_get (get_json req) ''review_text'' (JStr '''')),
                           (''self'', JStr (base_url req @ ''/'' @ str_int review_id))], 201), db'))"
    unfolding post_review_cases [OF c] business_check_iff existing_review_iff
    by (simp split: sum.splits prod.splits)
next
  assume "in_int_range uid \<and> in_int_range bid \<and> 0 \<le> st \<and> st \<le> 5 \<and> length txt \<le> 1000"
  then show "insert_review db (JInt uid) (JInt bid) (JInt st) (JStr txt) =
          Inr (db\<lparr>reviews := reviews db @
                    [\<lparr>r_id = reviews_seq db, r_user_id = uid, r_business_id = bid,
                      r_stars = Some st, r_review_text = Some txt\<rparr>],
                  reviews_seq := reviews_seq db + 1\<rparr>, reviews_seq db)"
    by (simp add: insert_review_accepts)
next
  assume "n < 0 \<or> 5 < n"
  then show "insert_review db u b (JInt n) t = Inl DBError"
    by (rule insert_review_rejects_stars)
qed

lemmas ex_eval = ex_defs has_key_def dict_get_def sql_eq_int_def in_int_range_def

text \<open>The claim without the store's verdict fails: all three attributes are there,
  business 1 exists, user 6 has no review of it, and \<^verbatim>\<open>stars = 9\<close> is answered 500, not
  201 (the \<^verbatim>\<open>CHECK\<close> constraint); so is a \<^verbatim>\<open>user_id\<close> that is present and null (the
  column is \<^verbatim>\<open>NOT NULL\<close>).\<close>

theorem post_review_precedence_counterexample:
  "has_key (get_json (ex_req\<lparr>get_json := [(''user_id'', JInt 6), (''business_id'', JInt 1), (''stars'', JInt 9)]\<rparr>)) ''user_id''
   \<and> has_key (get_json (ex_req\<lparr>get_json := [(''user_id'', JInt 6), (''business_id'', JInt 1), (''stars'', JInt 9)]\<rparr>)) ''business_id''
   \<and> has_key (get_json (ex_req\<lparr>get_json := [(''user_id'', JInt 6), (''business_id'', JInt 1), (''stars'', JInt 9)]\<rparr>)) ''stars''
   \<and> business_check ex_db (JInt 1)
   \<and> \<not> existing_review ex_db (JInt 6) (JInt 1)
   \<and> post_review (ex_req\<lparr>get_json := [(''user_id'', JInt 6), (''business_id'', JInt 1), (''stars'', JInt 9)]\<rparr>) ex_db
       = (Inr (error_body ''Unable to create review'', 500), ex_db)
   \<and> has_key (get_json (ex_req\<lparr>get_json := [(''user_id'', JNull), (''business_id'', JInt 1), (''stars'', JInt 4)]\<rparr>)) ''user_id''
   \<and> \<not> existing_review ex_db JNull (JInt 1)
   \<and> post_review (ex_req\<lparr>get_json := [(''user_id'', JNull), (''business_id'', JInt 1), (''stars'', JInt 4)]\<rparr>) ex_db
       = (Inr (error_body ''Unable to create review'', 500), ex_db)"
proof -
  let ?N = "ex_req\<lparr>get_json := [(''user_id'', JNull), (''business_id'', JInt 1), (''stars'', JInt 4)]\<rparr>"
  have cn: "map_of (get_json ?N) ''user_id'' = Some JNull"
    "map_of (get_json ?N) ''business_id'' = Some (JInt 1)"
    "map_of (get_json ?N) ''stars'' = Some (JInt 4)"
    by simp_all
  have ern: "\<not> existing_review ex_db JNull (JInt 1)"
    by (simp add: existing_review_def ex_eval)
  have n: "post_review ?N ex_db = (Inr (error_body ''Unable to create review'', 500), ex_db)"
    unfolding post_review_cases [OF cn]
    by (simp add: business_check_def existing_review_def ex_eval insert_review_def not_null_def
          int_column_def int_in_range_def)
  let ?R = "ex_req\<lparr>get_json := [(''user_id'', JInt 6), (''business_id'', JInt 1), (''stars'', JInt 9)]\<rparr>"
  have c: "map_of (get_json ?R) ''user_id'' = Some (JInt 6)"
    "map_of (get_json ?R) ''business_id'' = Some (JInt 1)"
    "map_of (get_json ?R) ''stars'' = Some (JInt 9)"
    by simp_all
  have bc: "business_check ex_db (JInt 1)"
    by (simp add: business_check_def ex_eval)
  have er: "\<not> existing_review ex_db (JInt 6) (JInt 1)"
    by (simp add: existing_review_def ex_eval)
  have "post_review ?R ex_db = (Inr (error_body ''Unable to create review'', 500), ex_db)"
    unfolding post_review_cases [OF c] using bc er
    by (simp add: insert_review_rejects_stars)
  then show ?thesis
    using bc er ern n by (simp add: has_key_def)
qed

text \<open>The five answers on the example store.\<close>

theorem post_review_precedence_witness:
  "post_review ex_req ex_db = (Inr (ERROR_BAD_REQUEST, 400), ex_db)
   \<and> post_review (ex_req\<lparr>get_json := [(''user_id'', JInt 6), (''business_id'', JInt 9), (''stars'', JInt 4)]\<rparr>) ex_db
       = (Inr (ERROR_NOT_FOUND, 404), ex_db)
   \<and> post_review (ex_req\<lparr>get_json := [(''user_id'', JInt 5), (''business_id'', JInt 1), (''stars'', JInt 4)]\<rparr>) ex_db
       = (Inr (ERROR_CONFLICT, 409), ex_db)
   \<and> post_review (ex_req\<lparr>get_json := [(''user_id'', JInt 6), (''business_id'', JInt 1), (''stars'', JInt 9)]\<rparr>) ex_db
       = (Inr (error_body ''Unable to create review'', 500), ex_db)
   \<and> post_review (ex_req\<lparr>get_json := [(''user_id'', JInt 6), (''business_id'', JInt 1), (''stars'', JInt 4)]\<rparr>) ex_db
       = (Inr (obj [(''id'', JInt 2), (''user_id'', JInt 6),
                    (''business'', JStr ''http://api/businesses/1''), (''stars'', JInt 4),
                    (''review_text'', JStr ''''), (''self'', JStr ''http://api/r/2'')], 201),
          ex_db\<lparr>reviews := [ex_review, \<lparr>r_id = 2, r_user_id = 6, r_business_id = 1,
                                         r_stars = Some 4, r_review_text = Some ''''\<rparr>],
                reviews_seq := 3\<rparr>)"
proof -
  have a: "post_review ex_req ex_db = (Inr (ERROR_BAD_REQUEST, 400), ex_db)"
    using post_review_precedence [of ex_req ex_db] by (simp add: ex_eval)
  have b: "post_review (ex_req\<lparr>get_json := [(''user_id'', JInt 6), (''business_id'', JInt 9), (''stars'', JInt 4)]\<rparr>) ex_db
       = (Inr (ERROR_NOT_FOUND, 404), ex_db)"
    using post_review_precedence [of "ex_req\<lparr>get_json := [(''user_id'', JInt 6), (''business_id'', JInt 9), (''stars'', JInt 4)]\<rparr>"
        ex_db "JInt 6" "JInt 9" "JInt 4" 6 1 4 "[]" 9 "JStr []"]
    by (simp add: ex_eval)
  have c: "post_review (ex_req\<lparr>get_json := [(''user_id'', JInt 5), (''business_id'', JInt 1), (''stars'', JInt 4)]\<rparr>) ex_db
       = (Inr (ERROR_CONFLICT, 409), ex_db)"
    using post_review_precedence [of "ex_req\<lparr>get_json := [(''user_id'', JInt 5), (''business_id'', JInt 1), (''stars'', JInt 4)]\<rparr>"
        ex_db "JInt 5" "JInt 1" "JInt 4" 6 1 4 "[]" 9 "JStr []"]
    by (simp add: ex_eval)
  have d: "post_review (ex_req\<lparr>get_json := [(''user_id'', JInt 6), (''business_id'', JInt 1), (''stars'', JInt 9)]\<rparr>) ex_db
       = (Inr (error_body ''Unable to create review'', 500), ex_db)"
    using post_review_precedence [of "ex_req\<lparr>get_json := [(''user_id'', JInt 6), (''business_id'', JInt 1), (''stars'', JInt 9)]\<rparr>"
        ex_db "JInt 6" "JInt 1" "JInt 9" 6 1 4 "[]" 9 "JStr []"]
    by (simp add: ex_eval insert_review_def not_null_def int_column_def int_in_range_def stars_column_def)
  have e: "post_review (ex_req\<lparr>get_json := [(''user_id'', JInt 6), (''business_id'', JInt 1), (''stars'', JInt 4)]\<rparr>) ex_db
       = (Inr (obj [(''id'', JInt 2), (''user_id'', JInt 6),
                    (''business'', JStr ''http://api/businesses/1''), (''stars'', JInt 4),
                    (''review_text'', JStr ''''), (''self'', JStr ''http://api/r/2'')], 201),
          ex_db\<lparr>reviews := [ex_review, \<lparr>r_id = 2, r_user_id = 6, r_business_id = 1,
                                         r_stars = Some 4, r_review_text = Some ''''\<rparr>],
                reviews_seq := 3\<rparr>)"
    using post_review_precedence [of "ex_req\<lparr>get_json := [(''user_id'', JInt 6), (''business_id'', JInt 1), (''stars'', JInt 4)]\<rparr>"
        ex_db "JInt 6" "JInt 1" "JInt 4" 6 1 4 "[]" 9 "JStr []"]
    by (simp add: ex_eval str_int_eval insert_review_def not_null_def int_column_def int_in_range_def
          stars_column_def varchar_column_def varchar_fits_def)
  show ?thesis using a b c d e by simp
qed


section \<open>Updating a review\<close>

lemma stars_column_null: "stars_column JNull = Inr None"
  by (simp add: stars_column_def int_column_def int_in_range_def)

lemma stars_only:
  assumes "map_of content ''stars'' = Some s" and "map_of content ''review_text'' = None"
  shows "update_parts content = [''stars = :stars'']"
    and "update_params content = [(''stars'', s)]"
  using assms by (simp_all add: update_parts_def update_params_def copy_item_def has_key_def)

lemma update_reviews_stars:
  "update_reviews db [''stars = :stars''] [(''stars'', s), (''id'', JInt i)] =
     (case stars_column s of
        Inl e \<Rightarrow> Inl e
      | Inr st \<Rightarrow> Inr (db\<lparr>reviews := map (\<lambda>x. if r_id x = i then x\<lparr>r_stars := st\<rparr> else x) (reviews db)\<rparr>))"
  by (simp add: update_reviews_def set_clause_def bound_def sql_eq_int_def and_then_def
        split: sum.splits)

lemma filter_id_map_update:
  assumes "\<And>x. r_id (g x) = r_id x"
  shows "filter (\<lambda>x. r_id x = i) (map (\<lambda>x. if r_id x = i then g x else x) xs)
           = map g (filter (\<lambda>x. r_id x = i) xs)"
  using assms by (induction xs) auto

lemma put_review_stars:
  assumes d: "distinct (map r_id (reviews db))" and r: "r \<in> set (reviews db)"
    and s: "map_of (get_json req) ''stars'' = Some s"
    and t: "map_of (get_json req) ''review_text'' = None"
  shows "put_review req db (r_id r) =
     (case stars_column s of
        Inl e \<Rightarrow> (Inl e, db)
      | Inr st \<Rightarrow>
          (Inr (obj [(''id'', JInt (r_id r)), (''user_id'', JInt (r_user_id r)),
                     (''business'', JStr (host_url req @ ''businesses/'' @ str_int (r_business_id r))),
                     (''stars'', nullable_int st),
                     (''review_text'', nullable_text (r_review_text r)),
                     (''self'', JStr (host_url req @ ''reviews/'' @ str_int (r_id r)))], 200),
           db\<lparr>reviews := map (\<lambda>x. if r_id x = r_id r then x\<lparr>r_stars := st\<rparr> else x) (reviews db)\<rparr>))"
proof -
  have sel: "select_review db (r_id r) = [r]"
    unfolding select_review_def using d r by (rule filter_unique_key)
  have ex: "exists_check db (r_id r)"
    by (simp add: exists_check_def sel)
  have key: "has_key (get_json req) ''stars''"
    using s by (simp add: has_key_def)
  have params: "setitem (update_params (get_json req)) ''id'' (JInt (r_id r))
      = [(''stars'', s), (''id'', JInt (r_id r))]"
    by (simp add: stars_only(2) [OF s t])
  show ?thesis
  proof (cases "stars_column s")
    case (Inl e)
    then show ?thesis
      by (simp add: put_review_def key stars_only(1) [OF s t] params ex update_reviews_stars)
  next
    case (Inr st)
    let ?db' = "db\<lparr>reviews := map (\<lambda>x. if r_id x = r_id r then x\<lparr>r_stars := st\<rparr> else x) (reviews db)\<rparr>"
    have "select_review ?db' (r_id r) = map (\<lambda>x. x\<lparr>r_stars := st\<rparr>) (select_review db (r_id r))"
      by (simp add: select_review_def filter_id_map_update)
    then have sel': "select_review ?db' (r_id r) = [r\<lparr>r_stars := st\<rparr>]"
      by (simp add: sel)
    show ?thesis
      by (simp add: put_review_def key stars_only(1) [OF s t] params ex update_reviews_stars Inr
            sel' review_response_def review_asdict_def dict_get_def)
  qed
qed

text \<open>Where ids are unique, writing a row's own stars back to the rows with its id
  changes nothing.\<close>

lemma map_same_key_id:
  assumes "distinct (map r_id xs)" and "r \<in> set xs"
  shows "map (\<lambda>x. if r_id x = r_id r then x\<lparr>r_stars := r_stars r\<rparr> else x) xs = xs"
proof (rule map_idI)
  fix x assume x: "x \<in> set xs"
  show "(if r_id x = r_id r then x\<lparr>r_stars := r_stars r\<rparr> else x) = x"
  proof (cases "r_id x = r_id r")
    case True
    from assms(1) have "inj_on r_id (set xs)"
      by (simp add: distinct_map)
    with x assms(2) True have "x = r"
      by (auto dest: inj_onD)
    then show ?thesis by simp
  next
    case False
    then show ?thesis by simp
  qed
qed

lemma put_review_businesses: "businesses (snd (put_review req db i)) = businesses db"
  by (auto simp: put_review_def Let_def update_reviews_def and_then_def
           split: sum.splits option.splits if_splits)

text \<open>
  C6, as the code has it. For an existing review, \<^verbatim>\<open>PUT /reviews/{id}\<close> with a body that
  has \<^verbatim>\<open>stars\<close> and no \<^verbatim>\<open>review_text\<close> changes at most the \<open>stars\<close> column of that
  row: its \<open>review_text\<close>, \<open>user_id\<close>, \<open>business_id\<close> and \<open>id\<close>, every other
  review and every business stay as they were. When the store takes the new stars (as it
  does null and an integer from 0 to 5), the column is updated and the answer is 200 with
  the new stars and the stored \<open>review_text\<close>. A body without \<^verbatim>\<open>stars\<close> is answered
  400 and nothing changes.
\<close>

theorem put_review_stars_only:
  "(distinct (map r_id (reviews db)) \<and> r \<in> set (reviews db)
      \<and> map_of (get_json req) ''stars'' = Some s \<and> map_of (get_json req) ''review_text'' = None \<longrightarrow>
     (\<exists>st. reviews (snd (put_review req db (r_id r)))
              = map (\<lambda>x. if r_id x = r_id r then x\<lparr>r_stars := st\<rparr> else x) (reviews db))
     \<and> businesses (snd (put_review req db (r_id r))) = businesses db)
   \<and> (distinct (map r_id (reviews db)) \<and> r \<in> set (reviews db)
      \<and> map_of (get_json req) ''stars'' = Some s \<and> map_of (get_json req) ''review_text'' = None
      \<and> stars_column s = Inr st \<longrightarrow>
     put_review req db (r_id r) =
       (Inr (obj [(''id'', JInt (r_id r)), (''user_id'', JInt (r_user_id r)),
                  (''business'', JStr (host_url req @ ''businesses/'' @ str_int (r_business_id r))),
                  (''stars'', nullable_int st),
                  (''review_text'', nullable_text (r_review_text r)),
                  (''self'', JStr (host_url req @ ''reviews/'' @ str_int (r_id r)))], 200),
        db\<lparr>reviews := map (\<lambda>x. if r_id x = r_id r then x\<lparr>r_stars := st\<rparr> else x) (reviews db)\<rparr>))
   \<and> (map_of (get_json req) ''stars'' = None \<longrightarrow>
        put_review req db i = (Inr (ERROR_BAD_REQUEST, 400), db))
   \<and> (0 \<le> n \<and> n \<le> 5 \<longrightarrow> stars_column (JInt n) = Inr (Some n))
   \<and> stars_column JNull = Inr None"
proof (intro conjI impI)
  assume "distinct (map r_id (reviews db)) \<and> r \<in> set (reviews db)
      \<and> map_of (get_json req) ''stars'' = Some s \<and> map_of (get_json req) ''review_text'' = None"
  then have a: "distinct (map r_id (reviews db))" "r \<in> set (reviews db)"
    "map_of (get_json req) ''stars'' = Some s" "map_of (get_json req) ''review_text'' = None"
    by simp_all
  show "\<exists>st. reviews (snd (put_review req db (r_id r)))
              = map (\<lambda>x. if r_id x = r_id r then x\<lparr>r_stars := st\<rparr> else x) (reviews db)"
  proof (cases "stars_column s")
    case (Inl e)
    then have "reviews (snd (put_review req db (r_id r))) = reviews db"
      by (simp add: put_review_stars [OF a])
    then have "reviews (snd (put_review req db (r_id r)))
        = map (\<lambda>x. if r_id x = r_id r then x\<lparr>r_stars := r_stars r\<rparr> else x) (reviews db)"
      by (simp add: map_same_key_id [OF a(1,2)])
    then show ?thesis ..
  next
    case (Inr st)
    then have "reviews (snd (put_review req db (r_id r)))
        = map (\<lambda>x. if r_id x = r_id r then x\<lparr>r_stars := st\<rparr> else x) (reviews db)"
      by (simp add: put_review_stars [OF a])
    then show ?thesis ..
  qed
next
  show "businesses (snd (put_review req db (r_id r))) = businesses db"
    by (rule put_review_businesses)
next
  assume "distinct (map r_id (reviews db)) \<and> r \<in> set (reviews db)
      \<and> map_of (get_json req) ''stars'' = Some s \<and> map_of (get_json req) ''review_text'' = None
      \<and> stars_column s = Inr st"
  then have a: "distinct (map r_id (reviews db))" "r \<in> set (reviews db)"
    "map_of (get_json req) ''stars'' = Some s" "map_of (get_json req) ''review_text'' = None"
    and st: "stars_column s = Inr st"
    by simp_all
  show "put_review req db (r_id r) =
       (Inr (obj [(''id'', JInt (r_id r)), (''user_id'', JInt (r_user_id r)),
                  (''business'', JStr (host_url req @ ''businesses/'' @ str_int (r_business_id r))),
                  (''stars'', nullable_int st),
                  (''review_text'', nullable_text (r_review_text r)),
                  (''self'', JStr (host_url req @ ''reviews/'' @ str_int (r_id r)))], 200),
        db\<lparr>reviews := map (\<lambda>x. if r_id x = r_id r then x\<lparr>r_stars := st\<rparr> else x) (reviews db)\<rparr>)"
    by (simp add: put_review_stars [OF a] st)
next
  assume "map_of (get_json req) ''stars'' = None"
  then show "put_review req db i = (Inr (ERROR_BAD_REQUEST, 400), db)"
    by (simp add: put_review_def has_key_def)
next
  assume "0 \<le> n \<and> n \<le> 5"
  then show "stars_column (JInt n) = Inr (Some n)"
    by (simp add: stars_column_int)
next
  show "stars_column JNull = Inr None"
    by (rule stars_column_null)
qed

text \<open>The claim for every value of \<^verbatim>\<open>stars\<close> fails: with \<^verbatim>\<open>{"stars": 9}\<close>, which
  the \<^verbatim>\<open>CHECK\<close> constraint forbids, and with \<^verbatim>\<open>{"stars": "abc"}\<close>, which the integer
  column does not take, the existing review 1 is not updated and no representation is
  returned.\<close>

theorem put_review_stars_only_counterexample:
  "distinct (map r_id (reviews ex_db)) \<and> ex_review \<in> set (reviews ex_db) \<and> r_id ex_review = 1
   \<and> map_of (get_json (ex_req\<lparr>get_json := [(''stars'', JInt 9)]\<rparr>)) ''stars'' = Some (JInt 9)
   \<and> map_of (get_json (ex_req\<lparr>get_json := [(''stars'', JInt 9)]\<rparr>)) ''review_text'' = None
   \<and> put_review (ex_req\<lparr>get_json := [(''stars'', JInt 9)]\<rparr>) ex_db 1 = (Inl DBError, ex_db)
   \<and> put_review (ex_req\<lparr>get_json := [(''stars'', JStr ''abc'')]\<rparr>) ex_db 1 = (Inl DBError, ex_db)"
proof -
  let ?T = "ex_req\<lparr>get_json := [(''stars'', JStr ''abc'')]\<rparr>"
  have at: "distinct (map r_id (reviews ex_db))" "ex_review \<in> set (reviews ex_db)"
    "map_of (get_json ?T) ''stars'' = Some (JStr ''abc'')" "map_of (get_json ?T) ''review_text'' = None"
    by (simp_all add: ex_db_def)
  have "stars_column (JStr ''abc'') = Inl DBError"
    by (simp add: stars_column_def int_column_def text_number_def split_sign_def is_sql_space_def
          is_digit_def)
  then have t: "put_review ?T ex_db (r_id ex_review) = (Inl DBError, ex_db)"
    by (simp add: put_review_stars [OF at])
  let ?R = "ex_req\<lparr>get_json := [(''stars'', JInt 9)]\<rparr>"
  have a: "distinct (map r_id (reviews ex_db))" "ex_review \<in> set (reviews ex_db)"
    "map_of (get_json ?R) ''stars'' = Some (JInt 9)" "map_of (get_json ?R) ''review_text'' = None"
    by (simp_all add: ex_db_def)
  have i: "r_id ex_review = 1" by (simp add: ex_review_def)
  have "put_review ?R ex_db (r_id ex_review) = (Inl DBError, ex_db)"
    by (simp add: put_review_stars [OF a] stars_column_int)
  then show ?thesis using a i t by simp
qed

text \<open>On the example store: \<^verbatim>\<open>{"stars": 4}\<close> is taken and keeps the text
  \<^verbatim>\<open>good\<close>; \<^verbatim>\<open>{"stars": 9}\<close> leaves the text as it was; a body with only
  \<^verbatim>\<open>review_text\<close> is answered 400.\<close>

theorem put_review_stars_only_witness:
  "distinct (map r_id (reviews ex_db)) \<and> ex_review \<in> set (reviews ex_db) \<and> r_id ex_review = 1
   \<and> stars_column (JInt 4) = Inr (Some 4)
   \<and> put_review (ex_req\<lparr>get_json := [(''stars'', JInt 4)]\<rparr>) ex_db 1 =
       (Inr (obj [(''id'', JInt 1), (''user_id'', JInt 5),
                  (''business'', JStr ''http://api/businesses/1''),
                  (''stars'', JInt 4), (''review_text'', JStr ''good''),
                  (''self'', JStr ''http://api/reviews/1'')], 200),
        ex_db\<lparr>reviews := [ex_review\<lparr>r_stars := Some 4\<rparr>]\<rparr>)
   \<and> map r_review_text (reviews (snd (put_review (ex_req\<lparr>get_json := [(''stars'', JInt 9)]\<rparr>) ex_db 1)))
       = [Some ''good'']
   \<and> put_review (ex_req\<lparr>get_json := [(''review_text'', JStr ''bad'')]\<rparr>) ex_db 1
       = (Inr (ERROR_BAD_REQUEST, 400), ex_db)"
proof -
  have a: "distinct (map r_id (reviews ex_db))" "ex_review \<in> set (reviews ex_db)"
    by (simp_all add: ex_db_def)
  have i: "r_id ex_review = 1" by (simp add: ex_review_def)
  have s4: "stars_column (JInt 4) = Inr (Some 4)"
    using put_review_stars_only [of ex_db ex_review ex_req "JInt 4" "Some 4" 1 4] by simp
  have ok: "put_review (ex_req\<lparr>get_json := [(''stars'', JInt 4)]\<rparr>) ex_db (r_id ex_review) =
       (Inr (obj [(''id'', JInt 1), (''user_id'', JInt 5),
                  (''business'', JStr ''http://api/businesses/1''),
                  (''stars'', JInt 4), (''review_text'', JStr ''good''),
                  (''self'', JStr ''http://api/reviews/1'')], 200),
        ex_db\<lparr>reviews := [ex_review\<lparr>r_stars := Some 4\<rparr>]\<rparr>)"
    using a s4
      put_review_stars_only [of ex_db ex_review "ex_req\<lparr>get_json := [(''stars'', JInt 4)]\<rparr>"
        "JInt 4" "Some 4" 1 4]
    by (simp add: ex_defs nullable_int_def nullable_text_def str_int_eval)
  have frame: "map r_review_text
       (reviews (snd (put_review (ex_req\<lparr>get_json := [(''stars'', JInt 9)]\<rparr>) ex_db (r_id ex_review))))
       = [Some ''good'']"
    using a
      put_review_stars_only [of ex_db ex_review "ex_req\<lparr>get_json := [(''stars'', JInt 9)]\<rparr>"
        "JInt 9" "Some 4" 1 4]
    by (auto simp: ex_db_def ex_review_def)
  have none: "put_review (ex_req\<lparr>get_json := [(''review_text'', JStr ''bad'')]\<rparr>) ex_db 1
       = (Inr (ERROR_BAD_REQUEST, 400), ex_db)"
    using put_review_stars_only [of ex_db ex_review "ex_req\<lparr>get_json := [(''review_text'', JStr ''bad'')]\<rparr>"
        "JInt 4" "Some 4" 1 4]
    by simp
  show ?thesis using a i s4 ok frame none by simp
qed


section \<open>One review for a user and a business\<close>

text \<open>A number with no fractional part is stored as it is, and compares equal to one
  integer only.\<close>

lemma dec_round_whole:
  assumes "m mod 10 ^ e = 0"
  shows "dec_round m e = m div 10 ^ e"
proof -
  from assms obtain k where k: "m = k * 10 ^ e"
    by (metis mod_eq_0_iff_dvd dvd_def mult.commute)
  have a: "\<bar>m\<bar> = \<bar>k\<bar> * 10 ^ e"
    by (simp add: k abs_mult)
  have s: "m < 0 \<longleftrightarrow> k < 0"
    by (simp add: k mult_less_0_iff)
  have p: "\<not> (10 :: int) ^ e \<le> 0"
    by (simp add: not_le)
  show ?thesis
    unfolding dec_round_def a using s p by (auto simp: k Let_def)
qed

lemma dec_eq_int_whole:
  assumes "m mod 10 ^ e = 0"
  shows "dec_eq_int c m e = (c = m div 10 ^ e)"
proof -
  from assms obtain k where k: "m = k * 10 ^ e"
    by (metis mod_eq_0_iff_dvd dvd_def mult.commute)
  show ?thesis
    by (auto simp: dec_eq_int_def k)
qed

lemma int_in_range_Some: "int_in_range j = Inr (Some i) \<Longrightarrow> i = j"
  by (simp add: int_in_range_def split: if_splits)

text \<open>A value with no fractional part that the store has taken for an integer column
  compares equal to exactly the integer stored. (A fractional number is rounded when
  stored and compared as it is, so 6.4 is stored as 6 and equals no stored integer.)\<close>

lemma sql_eq_int_stored:
  assumes "whole v" and "not_null (int_column v) = Inr i"
  shows "sql_eq_int c v = (c = i)"
proof (cases v)
  case JNull
  with assms show ?thesis by (simp add: not_null_def int_column_def)
next
  case (JBool b)
  with assms show ?thesis by (auto simp: not_null_def int_column_def sql_eq_int_def)
next
  case (JInt j)
  with assms show ?thesis
    by (auto simp: not_null_def int_column_def sql_eq_int_def dest: int_in_range_Some
             split: sum.splits option.splits)
next
  case (JDec m e)
  with assms have w: "m mod 10 ^ e = 0" by (simp add: whole_def)
  from assms JDec have "i = dec_round m e"
    by (auto simp: not_null_def int_column_def dest: int_in_range_Some
             split: sum.splits option.splits)
  then show ?thesis
    by (simp add: JDec sql_eq_int_def dec_eq_int_whole [OF w] dec_round_whole [OF w])
next
  case (JStr s)
  from assms JStr obtain m e r where t: "text_number s = (Some (m, e), r)"
    and i: "i = dec_round m e"
    by (auto simp: not_null_def int_column_def dest: int_in_range_Some
             split: sum.splits option.splits prod.splits if_splits)
  from assms JStr t have w: "m mod 10 ^ e = 0" by (simp add: whole_def)
  show ?thesis
    by (simp add: JStr sql_eq_int_def t i dec_eq_int_whole [OF w] dec_round_whole [OF w])
qed

lemma insert_review_row:
  assumes "insert_review db u b s t = Inr (db', rid)"
  obtains uid bid st tx where "not_null (int_column u) = Inr uid"
    and "not_null (int_column b) = Inr bid"
    and "db' = db\<lparr>reviews := reviews db @
                   [\<lparr>r_id = reviews_seq db, r_user_id = uid, r_business_id = bid,
                     r_stars = st, r_review_text = tx\<rparr>],
                 reviews_seq := reviews_seq db + 1\<rparr>"
  using assms
  by (auto simp: insert_review_def and_then_def split: sum.splits)

lemma post_review_created:
  assumes "fst (post_review req db) = Inr (body, 201)"
  obtains u b s db' rid where "map_of (get_json req) ''user_id'' = Some u"
    and "map_of (get_json req) ''business_id'' = Some b"
    and "map_of (get_json req) ''stars'' = Some s"
    and "business_check db b" and "\<not> existing_review db u b"
    and "insert_review db u b s (dict_get (get_json req) ''review_text'' (JStr '''')) = Inr (db', rid)"
    and "snd (post_review req db) = db'"
proof -
  have keys: "has_key (get_json req) ''user_id'' \<and> has_key (get_json req) ''business_id''
              \<and> has_key (get_json req) ''stars''"
  proof (rule ccontr)
    assume "\<not> ?thesis"
    then have "post_review req db = (Inr (ERROR_BAD_REQUEST, 400), db)"
      by (rule post_review_missing)
    with assms show False by simp
  qed
  then obtain u b s where c: "map_of (get_json req) ''user_id'' = Some u"
    "map_of (get_json req) ''business_id'' = Some b" "map_of (get_json req) ''stars'' = Some s"
    by (auto simp: has_key_def)
  from assms have bc: "business_check db b"
    unfolding post_review_cases [OF c] by (auto split: if_splits)
  from assms bc have er: "\<not> existing_review db u b"
    unfolding post_review_cases [OF c] by (auto split: if_splits)
  from assms bc er obtain db' rid where
    ins: "insert_review db u b s (dict_get (get_json req) ''review_text'' (JStr '''')) = Inr (db', rid)"
    unfolding post_review_cases [OF c] by (auto split: sum.splits)
  have "snd (post_review req db) = db'"
    unfolding post_review_cases [OF c] using bc er ins by simp
  with c bc er ins show ?thesis by (rule that)
qed

lemma post_review_reviews:
  assumes w: "review_ids_whole req"
  shows "reviews (snd (post_review req db)) = reviews db
   \<or> (\<exists>r. reviews (snd (post_review req db)) = reviews db @ [r]
          \<and> review_pair r \<notin> review_pair ` set (reviews db))"
proof (cases "has_key (get_json req) ''user_id'' \<and> has_key (get_json req) ''business_id''
              \<and> has_key (get_json req) ''stars''")
  case False
  then show ?thesis by (simp add: post_review_missing)
next
  case True
  then obtain u b s where c: "map_of (get_json req) ''user_id'' = Some u"
    "map_of (get_json req) ''business_id'' = Some b" "map_of (get_json req) ''stars'' = Some s"
    by (auto simp: has_key_def)
  from w c have wu: "whole u" and wb: "whole b"
    by (simp_all add: review_ids_whole_def whole_item_def)
  let ?t = "dict_get (get_json req) ''review_text'' (JStr '''')"
  show ?thesis
  proof (cases "business_check db b \<and> \<not> existing_review db u b")
    case False
    then show ?thesis unfolding post_review_cases [OF c] by auto
  next
    case ok: True
    show ?thesis
    proof (cases "insert_review db u b s ?t")
      case (Inl e)
      with ok show ?thesis unfolding post_review_cases [OF c] by simp
    next
      case (Inr p)
      then obtain db' rid where ins: "insert_review db u b s ?t = Inr (db', rid)"
        by (cases p) simp
      from ins obtain uid bid st tx where
        u: "not_null (int_column u) = Inr uid" and b: "not_null (int_column b) = Inr bid"
        and db': "db' = db\<lparr>reviews := reviews db @
                   [\<lparr>r_id = reviews_seq db, r_user_id = uid, r_business_id = bid,
                     r_stars = st, r_review_text = tx\<rparr>],
                 reviews_seq := reviews_seq db + 1\<rparr>"
        by (rule insert_review_row)
      from ok have "\<forall>r\<in>set (reviews db). \<not> (r_user_id r = uid \<and> r_business_id r = bid)"
        by (simp add: existing_review_iff sql_eq_int_stored [OF wu u] sql_eq_int_stored [OF wb b])
      then have "(uid, bid) \<notin> review_pair ` set (reviews db)"
        by (auto simp: review_pair_def)
      moreover have "snd (post_review req db) = db'"
        unfolding post_review_cases [OF c] using ok ins by simp
      ultimately show ?thesis
        by (simp add: db' review_pair_def)
    qed
  qed
qed

lemma post_businesses_reviews: "reviews (snd (post_businesses req db)) = reviews db"
  by (auto simp: post_businesses_def post_businesses_try_def insert_business_def and_then_def
        Let_def split: sum.splits)

lemma put_business_reviews: "reviews (snd (put_business req db i)) = reviews db"
  by (auto simp: put_business_def put_business_try_def update_business_def and_then_def
        Let_def split: sum.splits option.splits)

lemma delete_review_reviews:
  "reviews (snd (delete_review db i)) = filter (\<lambda>r. r_id r \<noteq> i) (reviews db)"
  by (simp add: delete_review_def delete_review_row_def)

lemma set_clause_pair:
  "set_clause part params = Inr f \<Longrightarrow> review_pair (f r) = review_pair r"
  by (auto simp: set_clause_def and_then_def review_pair_def split: if_splits sum.splits)

lemma set_clauses_pair:
  "set_clauses parts params = Inr f \<Longrightarrow> review_pair (f r) = review_pair r"
proof (induction parts arbitrary: f r)
  case Nil
  then show ?case by auto
next
  case (Cons part parts)
  then obtain g h where g: "set_clause part params = Inr g"
    and h: "set_clauses parts params = Inr h" and f: "f = (\<lambda>r. h (g r))"
    by (auto simp: and_then_def split: sum.splits)
  show ?case
    by (simp add: f Cons.IH [OF h] set_clause_pair [OF g])
qed

lemma update_reviews_pairs:
  "update_reviews db parts params = Inr db' \<Longrightarrow>
     map review_pair (reviews db') = map review_pair (reviews db)"
  by (auto simp: update_reviews_def and_then_def set_clauses_pair split: if_splits sum.splits)

lemma put_review_pairs:
  "map review_pair (reviews (snd (put_review req db i))) = map review_pair (reviews db)"
  by (auto simp: put_review_def Let_def update_reviews_pairs split: sum.splits option.splits)

lemma step_unique_pairs:
  assumes "unique_pairs db" and "call_ids_whole c"
  shows "unique_pairs (step db c)"
proof (cases c)
  case (PostReview req)
  with assms(2) have "review_ids_whole req" by simp
  from post_review_reviews [OF this, of db] assms(1) show ?thesis
    by (auto simp: PostReview unique_pairs_def)
next
  case (DeleteBusiness i)
  with assms show ?thesis
    by (simp add: unique_pairs_def delete_business_state distinct_map_filter)
next
  case (DeleteReview i)
  with assms show ?thesis
    by (simp add: unique_pairs_def delete_review_reviews distinct_map_filter)
qed (use assms in \<open>simp_all add: unique_pairs_def post_businesses_reviews put_business_reviews
       put_review_pairs\<close>)

lemma foldl_step_unique_pairs:
  "unique_pairs db \<Longrightarrow> list_all call_ids_whole calls \<Longrightarrow> unique_pairs (foldl step db calls)"
  by (induction calls arbitrary: db) (simp_all add: step_unique_pairs)

text \<open>
  C3, as the code has it. After any sequence of calls of the API, run one at a time from
  empty tables, in which no \<^verbatim>\<open>POST /reviews\<close> body carries a \<^verbatim>\<open>user_id\<close> or a
  \<^verbatim>\<open>business_id\<close> with a fractional part, no two reviews have the same \<open>user_id\<close> and
  \<open>business_id\<close>, and every such call keeps it so. For such a body
  \<^verbatim>\<open>POST /reviews\<close> answers 201 only when it appends a row whose pair no stored review
  has, and a second \<^verbatim>\<open>POST\<close> with the same \<^verbatim>\<open>user_id\<close> and \<^verbatim>\<open>business_id\<close> is then
  answered 409 and inserts nothing.
\<close>

theorem one_review_per_pair:
  "(list_all call_ids_whole calls \<longrightarrow> unique_pairs (run calls))
   \<and> (unique_pairs db \<and> call_ids_whole c \<longrightarrow> unique_pairs (step db c))
   \<and> (review_ids_whole req \<and> fst (post_review req db) = Inr (body, 201) \<longrightarrow>
        (\<exists>r. reviews (snd (post_review req db)) = reviews db @ [r]
             \<and> review_pair r \<notin> review_pair ` set (reviews db)))
   \<and> (review_ids_whole req \<and> fst (post_review req db) = Inr (body, 201)
        \<and> map_of (get_json req2) ''user_id'' = map_of (get_json req) ''user_id''
        \<and> map_of (get_json req2) ''business_id'' = map_of (get_json req) ''business_id''
        \<and> has_key (get_json req2) ''stars'' \<longrightarrow>
        post_review req2 (snd (post_review req db))
          = (Inr (ERROR_CONFLICT, 409), snd (post_review req db)))"
proof (intro conjI impI)
  assume "list_all call_ids_whole calls"
  moreover have "unique_pairs empty_db"
    by (simp add: unique_pairs_def empty_db_def)
  ultimately show "unique_pairs (run calls)"
    unfolding run_def by (simp add: foldl_step_unique_pairs)
next
  assume "unique_pairs db \<and> call_ids_whole c"
  then show "unique_pairs (step db c)"
    by (simp add: step_unique_pairs)
next
  assume a: "review_ids_whole req \<and> fst (post_review req db) = Inr (body, 201)"
  then have w: "review_ids_whole req" and created: "fst (post_review req db) = Inr (body, 201)"
    by simp_all
  from created obtain u b s db' rid where
    ins: "insert_review db u b s (dict_get (get_json req) ''review_text'' (JStr '''')) = Inr (db', rid)"
    and snd: "snd (post_review req db) = db'"
    by (rule post_review_created)
  from ins have "reviews db' \<noteq> reviews db"
    by (auto elim!: insert_review_row)
  with post_review_reviews [OF w, of db] snd
  show "\<exists>r. reviews (snd (post_review req db)) = reviews db @ [r]
             \<and> review_pair r \<notin> review_pair ` set (reviews db)"
    by auto
next
  assume a: "review_ids_whole req \<and> fst (post_review req db) = Inr (body, 201)
        \<and> map_of (get_json req2) ''user_id'' = map_of (get_json req) ''user_id''
        \<and> map_of (get_json req2) ''business_id'' = map_of (get_json req) ''business_id''
        \<and> has_key (get_json req2) ''stars''"
  then have w: "review_ids_whole req" and created: "fst (post_review req db) = Inr (body, 201)"
    by simp_all
  from created obtain u b s db' rid where
    c: "map_of (get_json req) ''user_id'' = Some u" "map_of (get_json req) ''business_id'' = Some b"
    and bc: "business_check db b"
    and ins: "insert_review db u b s (dict_get (get_json req) ''review_text'' (JStr '''')) = Inr (db', rid)"
    and snd: "snd (post_review req db) = db'"
    by (rule post_review_created)
  from w c have wu: "whole u" and wb: "whole b"
    by (simp_all add: review_ids_whole_def whole_item_def)
  from a obtain s2 where c2: "map_of (get_json req2) ''user_id'' = Some u"
    "map_of (get_json req2) ''business_id'' = Some b" "map_of (get_json req2) ''stars'' = Some s2"
    using c by (auto simp: has_key_def)
  from ins obtain uid bid st tx where
    u: "not_null (int_column u) = Inr uid" and b: "not_null (int_column b) = Inr bid"
    and db': "db' = db\<lparr>reviews := reviews db @
                   [\<lparr>r_id = reviews_seq db, r_user_id = uid, r_business_id = bid,
                     r_stars = st, r_review_text = tx\<rparr>],
                 reviews_seq := reviews_seq db + 1\<rparr>"
    by (rule insert_review_row)
  have bc': "business_check db' b"
    using bc by (simp add: business_check_def db')
  have er': "existing_review db' u b"
    by (simp add: existing_review_iff db' sql_eq_int_stored [OF wu u] sql_eq_int_stored [OF wb b])
  show "post_review req2 (snd (post_review req db))
          = (Inr (ERROR_CONFLICT, 409), snd (post_review req db))"
    unfolding snd post_review_cases [OF c2] using bc' er' by simp
qed

text \<open>The claim for every body fails: \<^verbatim>\<open>post_review\<close> hands \<^verbatim>\<open>user_id\<close> to the
  \<^verbatim>\<open>SELECT\<close> and to the \<^verbatim>\<open>INSERT\<close> as it came. After a business and a review by user 6
  are created, a \<^verbatim>\<open>POST /reviews\<close> with \<^verbatim>\<open>user_id\<close> 6.4 finds no review (6.4 equals no
  stored integer), the insert rounds 6.4 to 6, the answer is 201, and two reviews have
  the pair (6, 1).\<close>

theorem one_review_per_pair_counterexample:
  "run [PostBusinesses (ex_req\<lparr>get_json := [(''owner_id'', JInt 7), (''name'', JStr ''Cafe''),
                               (''street_address'', JStr ''1 Main St''), (''city'', JStr ''Bend''),
                               (''state'', JStr ''OR''), (''zip_code'', JInt 97330)]\<rparr>),
        PostReview (ex_req\<lparr>get_json := [(''user_id'', JInt 6), (''business_id'', JInt 1), (''stars'', JInt 4)]\<rparr>)]
     = \<lparr>businesses = [\<lparr>b_id = 1, b_owner_id = 7, b_name = ''Cafe'', b_street_address = ''1 Main St'',
                         b_city = ''Bend'', b_state = ''OR'', b_zip_code = ''97330''\<rparr>],
        reviews = [\<lparr>r_id = 1, r_user_id = 6, r_business_id = 1, r_stars = Some 4,
                     r_review_text = Some ''''\<rparr>],
        businesses_seq = 2, reviews_seq = 2\<rparr>
   \<and> fst (post_review (ex_req\<lparr>get_json := [(''user_id'', JDec 64 1), (''business_id'', JInt 1), (''stars'', JInt 4)]\<rparr>)
          (run [PostBusinesses (ex_req\<lparr>get_json := [(''owner_id'', JInt 7), (''name'', JStr ''Cafe''),
                               (''street_address'', JStr ''1 Main St''), (''city'', JStr ''Bend''),
                               (''state'', JStr ''OR''), (''zip_code'', JInt 97330)]\<rparr>),
                PostReview (ex_req\<lparr>get_json := [(''user_id'', JInt 6), (''business_id'', JInt 1), (''stars'', JInt 4)]\<rparr>)]))
       = Inr (obj [(''id'', JInt 2), (''user_id'', JDec 64 1),
                   (''business'', JStr ''http://api/businesses/1''), (''stars'', JInt 4),
                   (''review_text'', JStr ''''), (''self'', JStr ''http://api/r/2'')], 201)
   \<and> map review_pair (reviews (run
        [PostBusinesses (ex_req\<lparr>get_json := [(''owner_id'', JInt 7), (''name'', JStr ''Cafe''),
                               (''street_address'', JStr ''1 Main St''), (''city'', JStr ''Bend''),
                               (''state'', JStr ''OR''), (''zip_code'', JInt 97330)]\<rparr>),
         PostReview (ex_req\<lparr>get_json := [(''user_id'', JInt 6), (''business_id'', JInt 1), (''stars'', JInt 4)]\<rparr>),
         PostReview (ex_req\<lparr>get_json := [(''user_id'', JDec 64 1), (''business_id'', JInt 1), (''stars'', JInt 4)]\<rparr>)]))
       = [(6, 1), (6, 1)]
   \<and> \<not> unique_pairs (run
        [PostBusinesses (ex_req\<lparr>get_json := [(''owner_id'', JInt 7), (''name'', JStr ''Cafe''),
                               (''street_address'', JStr ''1 Main St''), (''city'', JStr ''Bend''),
                               (''state'', JStr ''OR''), (''zip_code'', JInt 97330)]\<rparr>),
         PostReview (ex_req\<lparr>get_json := [(''user_id'', JInt 6), (''business_id'', JInt 1), (''stars'', JInt 4)]\<rparr>),
         PostReview (ex_req\<lparr>get_json := [(''user_id'', JDec 64 1), (''business_id'', JInt 1), (''stars'', JInt 4)]\<rparr>)])"
proof -
  let ?B = "ex_req\<lparr>get_json := [(''owner_id'', JInt 7), (''name'', JStr ''Cafe''),
                               (''street_address'', JStr ''1 Main St''), (''city'', JStr ''Bend''),
                               (''state'', JStr ''OR''), (''zip_code'', JInt 97330)]\<rparr>"
  let ?R = "ex_req\<lparr>get_json := [(''user_id'', JInt 6), (''business_id'', JInt 1), (''stars'', JInt 4)]\<rparr>"
  let ?F = "ex_req\<lparr>get_json := [(''user_id'', JDec 64 1), (''business_id'', JInt 1), (''stars'', JInt 4)]\<rparr>"
  let ?b = "\<lparr>b_id = 1, b_owner_id = 7, b_name = ''Cafe'', b_street_address = ''1 Main St'',
                         b_city = ''Bend'', b_state = ''OR'', b_zip_code = ''97330''\<rparr>"
  let ?r = "\<lparr>r_id = 1, r_user_id = 6, r_business_id = 1, r_stars = Some 4,
                     r_review_text = Some ''''\<rparr>"
  let ?db1 = "\<lparr>businesses = [?b], reviews = [], businesses_seq = 2, reviews_seq = 1\<rparr>"
  let ?db2 = "\<lparr>businesses = [?b], reviews = [?r], businesses_seq = 2, reviews_seq = 2\<rparr>"
  let ?db3 = "\<lparr>businesses = [?b], reviews = [?r, ?r\<lparr>r_id := 2\<rparr>], businesses_seq = 2, reviews_seq = 3\<rparr>"
  have s1: "snd (post_businesses ?B empty_db) = ?db1"
    by (simp add: post_businesses_def post_businesses_try_def getitem_def insert_business_def
          business_columns_def not_null_def int_column_def int_in_range_def varchar_column_def
          varchar_fits_def in_int_range_def empty_db_def ex_defs str_int_eval)
  have c: "map_of (get_json ?R) ''user_id'' = Some (JInt 6)"
    "map_of (get_json ?R) ''business_id'' = Some (JInt 1)"
    "map_of (get_json ?R) ''stars'' = Some (JInt 4)"
    by simp_all
  have s2: "snd (post_review ?R ?db1) = ?db2"
    unfolding post_review_cases [OF c]
    by (simp add: business_check_def existing_review_def ex_eval str_int_eval insert_review_def
          not_null_def int_column_def int_in_range_def stars_column_def varchar_column_def
          varchar_fits_def)
  have d: "map_of (get_json ?F) ''user_id'' = Some (JDec 64 1)"
    "map_of (get_json ?F) ''business_id'' = Some (JInt 1)"
    "map_of (get_json ?F) ''stars'' = Some (JInt 4)"
    by simp_all
  have s3: "post_review ?F ?db2
       = (Inr (obj [(''id'', JInt 2), (''user_id'', JDec 64 1),
                   (''business'', JStr ''http://api/businesses/1''), (''stars'', JInt 4),
                   (''review_text'', JStr ''''), (''self'', JStr ''http://api/r/2'')], 201), ?db3)"
    unfolding post_review_cases [OF d]
    by (simp add: business_check_def existing_review_def ex_eval str_int_eval insert_review_def
          not_null_def int_column_def int_in_range_def stars_column_def varchar_column_def
          varchar_fits_def dec_eq_int_def dec_round_def Let_def)
  have r2: "run [PostBusinesses ?B, PostReview ?R] = ?db2"
    by (simp add: run_def s1 s2)
  have r3: "run [PostBusinesses ?B, PostReview ?R, PostReview ?F] = ?db3"
    by (simp add: run_def s1 s2 s3 del: One_nat_def)
  show ?thesis
    unfolding r2 r3 s3 by (simp add: unique_pairs_def review_pair_def)
qed

text \<open>A run that creates a business and posts the same review twice; and, on the
  example store, a review by user 6 created once and refused the second time.\<close>

theorem one_review_per_pair_witness:
  "list_all call_ids_whole
     [PostBusinesses (ex_req\<lparr>get_json := [(''owner_id'', JInt 7), (''name'', JStr ''Cafe''),
                               (''street_address'', JStr ''1 Main St''), (''city'', JStr ''Bend''),
                               (''state'', JStr ''OR''), (''zip_code'', JInt 97330)]\<rparr>),
      PostReview (ex_req\<lparr>get_json := [(''user_id'', JInt 6), (''business_id'', JInt 1), (''stars'', JInt 4)]\<rparr>),
      PostReview (ex_req\<lparr>get_json := [(''user_id'', JInt 6), (''business_id'', JInt 1), (''stars'', JInt 2)]\<rparr>)]
   \<and> unique_pairs (run [PostBusinesses (ex_req\<lparr>get_json := [(''owner_id'', JInt 7), (''name'', JStr ''Cafe''),
                               (''street_address'', JStr ''1 Main St''), (''city'', JStr ''Bend''),
                               (''state'', JStr ''OR''), (''zip_code'', JInt 97330)]\<rparr>),
                      PostReview (ex_req\<lparr>get_json := [(''user_id'', JInt 6), (''business_id'', JInt 1), (''stars'', JInt 4)]\<rparr>),
                      PostReview (ex_req\<lparr>get_json := [(''user_id'', JInt 6), (''business_id'', JInt 1), (''stars'', JInt 2)]\<rparr>)])
   \<and> unique_pairs ex_db
   \<and> call_ids_whole (PostReview (ex_req\<lparr>get_json := [(''user_id'', JInt 6), (''business_id'', JInt 1), (''stars'', JInt 4)]\<rparr>))
   \<and> unique_pairs (step ex_db (PostReview (ex_req\<lparr>get_json := [(''user_id'', JInt 6), (''business_id'', JInt 1), (''stars'', JInt 4)]\<rparr>)))
   \<and> review_ids_whole (ex_req\<lparr>get_json := [(''user_id'', JInt 6), (''business_id'', JInt 1), (''stars'', JInt 4)]\<rparr>)
   \<and> fst (post_review (ex_req\<lparr>get_json := [(''user_id'', JInt 6), (''business_id'', JInt 1), (''stars'', JInt 4)]\<rparr>) ex_db)
       = Inr (obj [(''id'', JInt 2), (''user_id'', JInt 6),
                   (''business'', JStr ''http://api/businesses/1''), (''stars'', JInt 4),
                   (''review_text'', JStr ''''), (''self'', JStr ''http://api/r/2'')], 201)
   \<and> map review_pair (reviews ex_db) = [(5, 1)]
   \<and> map review_pair (reviews (snd (post_review (ex_req\<lparr>get_json := [(''user_id'', JInt 6), (''business_id'', JInt 1), (''stars'', JInt 4)]\<rparr>) ex_db)))
       = [(5, 1), (6, 1)]
   \<and> post_review (ex_req\<lparr>get_json := [(''user_id'', JInt 6), (''business_id'', JInt 1), (''stars'', JInt 2)]\<rparr>)
         (snd (post_review (ex_req\<lparr>get_json := [(''user_id'', JInt 6), (''business_id'', JInt 1), (''stars'', JInt 4)]\<rparr>) ex_db))
       = (Inr (ERROR_CONFLICT, 409),
          snd (post_review (ex_req\<lparr>get_json := [(''user_id'', JInt 6), (''business_id'', JInt 1), (''stars'', JInt 4)]\<rparr>) ex_db))"
proof -
  let ?B = "ex_req\<lparr>get_json := [(''owner_id'', JInt 7), (''name'', JStr ''Cafe''),
                               (''street_address'', JStr ''1 Main St''), (''city'', JStr ''Bend''),
                               (''state'', JStr ''OR''), (''zip_code'', JInt 97330)]\<rparr>"
  let ?R = "ex_req\<lparr>get_json := [(''user_id'', JInt 6), (''business_id'', JInt 1), (''stars'', JInt 4)]\<rparr>"
  let ?R2 = "ex_req\<lparr>get_json := [(''user_id'', JInt 6), (''business_id'', JInt 1), (''stars'', JInt 2)]\<rparr>"
  let ?body = "obj [(''id'', JInt 2), (''user_id'', JInt 6),
                   (''business'', JStr ''http://api/businesses/1''), (''stars'', JInt 4),
                   (''review_text'', JStr ''''), (''self'', JStr ''http://api/r/2'')]"
  have c: "map_of (get_json ?R) ''user_id'' = Some (JInt 6)"
    "map_of (get_json ?R) ''business_id'' = Some (JInt 1)"
    "map_of (get_json ?R) ''stars'' = Some (JInt 4)"
    by simp_all
  have p: "post_review ?R ex_db
       = (Inr (?body, 201),
          ex_db\<lparr>reviews := [ex_review, \<lparr>r_id = 2, r_user_id = 6, r_business_id = 1,
                                         r_stars = Some 4, r_review_text = Some ''''\<rparr>],
                reviews_seq := 3\<rparr>)"
    unfolding post_review_cases [OF c]
    by (simp add: business_check_def existing_review_def ex_eval str_int_eval insert_review_def
          not_null_def int_column_def int_in_range_def stars_column_def varchar_column_def varchar_fits_def)
  have u: "unique_pairs ex_db"
    by (simp add: unique_pairs_def ex_db_def)
  have k: "has_key (get_json ?R2) ''stars''"
    by (simp add: has_key_def)
  have w: "review_ids_whole ?R" "review_ids_whole ?R2"
    by (simp_all add: review_ids_whole_def whole_item_def whole_def)
  have m: "map review_pair (reviews ex_db) = [(5, 1)]"
    by (simp add: ex_defs review_pair_def)
  have m': "map review_pair (reviews (snd (post_review ?R ex_db))) = [(5, 1), (6, 1)]"
    unfolding p by (simp add: ex_defs review_pair_def)
  note t = one_review_per_pair [of "[PostBusinesses ?B, PostReview ?R, PostReview ?R2]"
             ex_db "PostReview ?R" ?R ?body ?R2]
  show ?thesis
    using t u k w p m m' by simp
qed

section \<open>The zip code of a business\<close>

text \<open>The entry \<^verbatim>\<open>get_bussiness_by_owner\<close> builds keeps \<open>zip_code\<close> as the stored
  text: unlike \<^verbatim>\<open>get_business\<close> and \<^verbatim>\<open>get_businesses\<close>, it does not call
  \<^verbatim>\<open>int()\<close>.\<close>

lemma owner_entry_dict:
  "owner_entry req b =
     obj [(''id'', JInt (b_id b)), (''owner_id'', JInt (b_owner_id b)), (''name'', JStr (b_name b)),
          (''street_address'', JStr (b_street_address b)), (''city'', JStr (b_city b)),
          (''state'', JStr (b_state b)), (''zip_code'', JStr (b_zip_code b)),
          (''self'', JStr (url_root req @ ''businesses/'' @ str_int (b_id b)))]"
  by (simp add: owner_entry_def business_asdict_def dict_get_def Let_def)

text \<open>
  C5 says that every answer with a business representation carries \<open>zip_code\<close> as an
  integer. The code does so in \<^verbatim>\<open>GET /businesses/{id}\<close> and \<^verbatim>\<open>GET /businesses\<close>, and
  not in \<^verbatim>\<open>GET /owners/{id}/businesses\<close>: a business created with the integer zip code
  97330 is stored as the text \<^verbatim>\<open>97330\<close>, fetched by id with the integer 97330, and
  listed by owner with the text \<^verbatim>\<open>"97330"\<close>.
\<close>

theorem zip_code_by_owner_is_text:
  "post_businesses
      (ex_req\<lparr>get_json := [(''owner_id'', JInt 7), (''name'', JStr ''Cafe''),
                            (''street_address'', JStr ''1 Main St''), (''city'', JStr ''Bend''),
                            (''state'', JStr ''OR''), (''zip_code'', JInt 97330)]\<rparr>) empty_db
     = (Inr (obj [(''id'', JInt 1), (''owner_id'', JInt 7), (''name'', JStr ''Cafe''),
                  (''street_address'', JStr ''1 Main St''), (''city'', JStr ''Bend''),
                  (''state'', JStr ''OR''), (''zip_code'', JInt 97330),
                  (''self'', JStr ''http://api/r/1'')], 201),
        ex_db\<lparr>reviews := [], reviews_seq := 1\<rparr>)
   \<and> get_business ex_req (ex_db\<lparr>reviews := [], reviews_seq := 1\<rparr>) 1
     = Inr (obj [(''id'', JInt 1), (''owner_id'', JInt 7), (''name'', JStr ''Cafe''),
                 (''street_address'', JStr ''1 Main St''), (''city'', JStr ''Bend''),
                 (''state'', JStr ''OR''), (''zip_code'', JInt 97330),
                 (''self'', JStr ''http://api/businesses/1'')], 200)
   \<and> get_bussiness_by_owner ex_req (ex_db\<lparr>reviews := [], reviews_seq := 1\<rparr>) 7
     = Inr (JList [obj [(''id'', JInt 1), (''owner_id'', JInt 7), (''name'', JStr ''Cafe''),
                        (''street_address'', JStr ''1 Main St''), (''city'', JStr ''Bend''),
                        (''state'', JStr ''OR''), (''zip_code'', JStr ''97330''),
                        (''self'', JStr ''http://api/businesses/1'')]], 200)"
proof -
  have z: "py_int ''97330'' = Some 97330"
    by (simp add: py_int_eval)
  have p: "post_businesses
      (ex_req\<lparr>get_json := [(''owner_id'', JInt 7), (''name'', JStr ''Cafe''),
                            (''street_address'', JStr ''1 Main St''), (''city'', JStr ''Bend''),
                            (''state'', JStr ''OR''), (''zip_code'', JInt 97330)]\<rparr>) empty_db
     = (Inr (obj [(''id'', JInt 1), (''owner_id'', JInt 7), (''name'', JStr ''Cafe''),
                  (''street_address'', JStr ''1 Main St''), (''city'', JStr ''Bend''),
                  (''state'', JStr ''OR''), (''zip_code'', JInt 97330),
                  (''self'', JStr ''http://api/r/1'')], 201),
        ex_db\<lparr>reviews := [], reviews_seq := 1\<rparr>)"
    by (simp add: post_businesses_def post_businesses_try_def getitem_def insert_business_def
          business_columns_def not_null_def int_column_def int_in_range_def varchar_column_def varchar_fits_def in_int_range_def
          empty_db_def ex_defs str_int_eval)
  have g: "get_business ex_req (ex_db\<lparr>reviews := [], reviews_seq := 1\<rparr>) 1
     = Inr (obj [(''id'', JInt 1), (''owner_id'', JInt 7), (''name'', JStr ''Cafe''),
                 (''street_address'', JStr ''1 Main St''), (''city'', JStr ''Bend''),
                 (''state'', JStr ''OR''), (''zip_code'', JInt 97330),
                 (''self'', JStr ''http://api/businesses/1'')], 200)"
    by (simp add: get_business_def select_business_def business_asdict_def getitem_def
          int_of_jval_def z ex_defs str_int_eval)
  have b: "get_bussiness_by_owner ex_req (ex_db\<lparr>reviews := [], reviews_seq := 1\<rparr>) 7
     = Inr (JList [obj [(''id'', JInt 1), (''owner_id'', JInt 7), (''name'', JStr ''Cafe''),
                        (''street_address'', JStr ''1 Main St''), (''city'', JStr ''Bend''),
                        (''state'', JStr ''OR''), (''zip_code'', JStr ''97330''),
                        (''self'', JStr ''http://api/businesses/1'')]], 200)"
    by (simp add: get_bussiness_by_owner_def owner_entry_dict ex_defs str_int_eval)
  show ?thesis using p g b by simp
qed


end
